theory Spec2Isabelle
  imports Complex_Main "HOL-Library.Multiset"
begin

section \<open>JavaScript values used by server.js\<close>

text \<open>
  Strings are lists of code units; the model keeps to code units below 256.
  A request-body field is a string or is absent (\<open>undefined\<close>), so a field has type
  \<open>string option\<close>. \<open>truthy\<close> is the test behind \<open>!x\<close> and \<open>x || y\<close> on such a field:
  \<open>undefined\<close> and the empty string are falsy, every other string is truthy.
\<close>

definition truthy :: "string option \<Rightarrow> bool" where
  "truthy v = (case v of None \<Rightarrow> False | Some s \<Rightarrow> s \<noteq> [])"

text \<open>\<open>category || "General"\<close>\<close>

definition or_else :: "string option \<Rightarrow> string \<Rightarrow> string" where
  "or_else v d = (case v of None \<Rightarrow> d | Some s \<Rightarrow> if s = [] then d else s)"

text \<open>
  \<open>String.prototype.trim\<close>: white space and line terminators of ECMAScript that lie
  below 256 are TAB, LF, VT, FF, CR, SP and NBSP.
\<close>

definition is_ws :: "char \<Rightarrow> bool" where
  "is_ws c = (of_char c \<in> {9, 10, 11, 12, 13, 32, 160 :: nat})"

definition trim :: "string \<Rightarrow> string" where
  "trim s = rev (dropWhile is_ws (rev (dropWhile is_ws s)))"

text \<open>
  \<open>s.split(c)\<close> for a separator of one code unit: the segments between the
  separators, empty segments included; the result is never empty.
\<close>

fun split_on :: "char \<Rightarrow> string \<Rightarrow> string list" where
  "split_on c [] = [[]]"
| "split_on c (x # xs) =
     (if x = c then [] # split_on c xs
      else (case split_on c xs of
              [] \<Rightarrow> [[x]]
            | y # ys \<Rightarrow> (x # y) # ys))"

text \<open>\<open>xs[i]\<close> on an array: \<open>undefined\<close> out of range.\<close>

definition at_index :: "'a list \<Rightarrow> nat \<Rightarrow> 'a option" where
  "at_index xs i = (if i < length xs then Some (xs ! i) else None)"

text \<open>Decimal numerals, as \<open>String(n)\<close> prints a non-negative integer.\<close>

definition digit_char :: "nat \<Rightarrow> char" where
  "digit_char d = char_of (48 + d)"

definition is_digit :: "char \<Rightarrow> bool" where
  "is_digit c = (48 \<le> (of_char c :: nat) \<and> (of_char c :: nat) \<le> 57)"

definition digit_val :: "char \<Rightarrow> nat" where
  "digit_val c = of_char c - 48"

fun dec :: "nat \<Rightarrow> string" where
  "dec n = (if n < 10 then [digit_char n] else dec (n div 10) @ [digit_char (n mod 10)])"

declare dec.simps [simp del]

definition undec :: "string \<Rightarrow> nat option" where
  "undec s = (if s \<noteq> [] \<and> list_all is_digit s
              then Some (foldl (\<lambda>a c. 10 * a + digit_val c) 0 s) else None)"

text \<open>
  A space-free transport encoding of arbitrary strings (the role base64url plays in a
  compact token): three decimal digits per code unit.
\<close>

definition enc3 :: "char \<Rightarrow> string" where
  "enc3 c = (let n = (of_char c :: nat)
             in [digit_char (n div 100), digit_char (n div 10 mod 10), digit_char (n mod 10)])"

fun encode :: "string \<Rightarrow> string" where
  "encode [] = []"
| "encode (c # cs) = enc3 c @ encode cs"

fun decode :: "string \<Rightarrow> string option" where
  "decode [] = Some []"
| "decode (a # b # c # rest) =
     (if is_digit a \<and> is_digit b \<and> is_digit c
         \<and> 100 * digit_val a + 10 * digit_val b + digit_val c < 256
      then map_option ((#) (char_of (100 * digit_val a + 10 * digit_val b + digit_val c)))
             (decode rest)
      else None)"
| "decode _ = None"

text \<open>
  JSON values, as \<open>res.json\<close> sends them and \<open>response.json()\<close> returns them. A JavaScript
  value that may be \<open>undefined\<close> is a \<open>json option\<close>.
\<close>

datatype json =
    JNull
  | JBool bool
  | JNum rat
  | JStr string
  | JArr "json list"
  | JObj "(string \<times> json) list"

text \<open>A thrown \<open>Error\<close>; the handlers read nothing but its \<open>message\<close>.\<close>

datatype js_error = Error (message: string)

text \<open>
  \<open>v?.k\<close> for the keys the server reads (\<open>candidates\<close>, \<open>content\<close>, \<open>parts\<close>, \<open>text\<close>):
  \<open>undefined\<close> on \<open>undefined\<close> and \<open>null\<close>, the member on an object, \<open>undefined\<close> on
  every other value.
\<close>

definition get_prop :: "string \<Rightarrow> json option \<Rightarrow> json option" where
  "get_prop k v = (case v of Some (JObj kvs) \<Rightarrow> map_of kvs k | _ \<Rightarrow> None)"

text \<open>\<open>v?.[0]\<close>: the first element of an array, the first code unit of a string.\<close>

definition elem0 :: "json option \<Rightarrow> json option" where
  "elem0 v =
     (case v of
        Some (JArr xs) \<Rightarrow> at_index xs 0
      | Some (JStr s) \<Rightarrow> (case s of [] \<Rightarrow> None | c # _ \<Rightarrow> Some (JStr [c]))
      | Some (JObj kvs) \<Rightarrow> map_of kvs ''0''
      | _ \<Rightarrow> None)"

text \<open>
  \<open>v?.trim()\<close>: \<open>undefined\<close> on \<open>undefined\<close> and \<open>null\<close>, the trimmed string on a string;
  any other JSON value has no callable \<open>trim\<close> and the call throws a TypeError, with
  the message Node gives for the one place of server.js that makes this call.
\<close>

definition opt_trim :: "json option \<Rightarrow> js_error + string option" where
  "opt_trim v =
     (case v of
        None \<Rightarrow> Inr None
      | Some JNull \<Rightarrow> Inr None
      | Some (JStr s) \<Rightarrow> Inr (Some (trim s))
      | Some _ \<Rightarrow> Inl (Error ''data?.candidates?.[0]?.content?.parts?.[0]?.text?.trim is not a function''))"

section \<open>Configuration and the world outside the process\<close>

text \<open>The variables read from \<open>process.env\<close>, and the two constants of the file.\<close>

record config =
  JWT_SECRET :: string
  GEMINI_API_KEY :: string
  NODE_ENV :: "string option"

definition SALT_ROUNDS :: nat where
  "SALT_ROUNDS = 10"

definition GEMINI_API_URL :: string where
  "GEMINI_API_URL =
     ''https://generativelanguage.googleapis.com/v1beta/models/gemini-1.5-flash-latest:generateContent''"

text \<open>What \<open>fetch\<close> resolves to: a rejection, or a response with its status, its text and
  what \<open>response.json()\<close> gives (a rejection when the text is not JSON).\<close>

datatype fetch_result =
    FetchError string
  | HttpResponse nat string "js_error + json"

text \<open>
  Everything a handler obtains from outside itself during one request: the packages
  \<open>jsonwebtoken\<close> (its HMAC), \<open>bcrypt\<close> (with the salt it draws for this request) and
  \<open>node-fetch\<close>, the clock in seconds, and for the \<open>k\<close>-th \<open>db.query\<close> of the request
  whether MySQL rejects it and with which message.
\<close>

record world =
  hmac :: "string \<Rightarrow> string \<Rightarrow> string"
  bcrypt_hash :: "string \<Rightarrow> nat \<Rightarrow> string"
  bcrypt_compare :: "string \<Rightarrow> string \<Rightarrow> bool"
  now :: nat
  db_fault :: "nat \<Rightarrow> string option"
  fetch :: "string \<Rightarrow> json \<Rightarrow> fetch_result"

section \<open>jsonwebtoken\<close>

text \<open>
  The payload the server signs is \<open>{ userId, username }\<close>; \<open>jwt.sign\<close> adds \<open>iat\<close> and,
  for \<open>expiresIn\<close>, \<open>exp = iat + expiresIn\<close>. \<open>jwt.verify\<close> hands the whole object back.
\<close>

record claims =
  userId :: nat
  c_username :: string
  iat :: nat
  exp :: nat

text \<open>
  The package is not part of the repository. Its compact serialisation is modelled by
  five dot-separated fields over digits (so a token has no space in it, as a
  base64url token has none), the last being the HMAC of the first four under the
  secret. The HMAC itself is the parameter \<open>mac\<close>.
\<close>

definition signing_input :: "nat \<Rightarrow> string \<Rightarrow> nat \<Rightarrow> nat \<Rightarrow> string" where
  "signing_input uid un i x = dec uid @ ''.'' @ encode un @ ''.'' @ dec i @ ''.'' @ dec x"

definition jwt_sign ::
  "(string \<Rightarrow> string \<Rightarrow> string) \<Rightarrow> nat \<Rightarrow> string \<Rightarrow> string \<Rightarrow> nat \<Rightarrow> nat \<Rightarrow> js_error + string" where
  "jwt_sign mac uid un secret expiresIn t =
     (if secret = [] then Inl (Error ''secretOrPrivateKey must have a value'')
      else let inp = signing_input uid un t (t + expiresIn)
           in Inr (inp @ ''.'' @ encode (mac secret inp)))"

definition jwt_fields :: "string \<Rightarrow> string \<Rightarrow> string \<Rightarrow> string \<Rightarrow> string \<Rightarrow> (claims \<times> string \<times> string) option" where
  "jwt_fields a b c d e =
     (case undec a of None \<Rightarrow> None | Some uid \<Rightarrow>
       (case decode b of None \<Rightarrow> None | Some un \<Rightarrow>
         (case undec c of None \<Rightarrow> None | Some i \<Rightarrow>
           (case undec d of None \<Rightarrow> None | Some x \<Rightarrow>
             (case decode e of None \<Rightarrow> None | Some sg \<Rightarrow>
                Some (\<lparr>userId = uid, c_username = un, iat = i, exp = x\<rparr>,
                      a @ ''.'' @ b @ ''.'' @ c @ ''.'' @ d, sg))))))"

definition jwt_decode :: "string \<Rightarrow> (claims \<times> string \<times> string) option" where
  "jwt_decode tok =
     (case split_on CHR ''.'' tok of
        [a, b, c, d, e] \<Rightarrow> jwt_fields a b c d e
      | _ \<Rightarrow> None)"

text \<open>\<open>jwt.verify(token, secret)\<close> at clock \<open>t\<close>: a token is expired from \<open>exp\<close> on.\<close>

definition jwt_verify ::
  "(string \<Rightarrow> string \<Rightarrow> string) \<Rightarrow> string \<Rightarrow> string \<Rightarrow> nat \<Rightarrow> js_error + claims" where
  "jwt_verify mac tok secret t =
     (case jwt_decode tok of
        None \<Rightarrow> Inl (Error ''jwt malformed'')
      | Some (cl, inp, sg) \<Rightarrow>
          if secret = [] then Inl (Error ''secret or public key must be provided'')
          else if sg \<noteq> mac secret inp then Inl (Error ''invalid signature'')
          else if exp cl \<le> t then Inl (Error ''jwt expired'')
          else Inr cl)"

section \<open>The MySQL tables and the seven statements\<close>

text \<open>
  Modelled from the spec: the schema file \<open>database.sql\<close> of the repository is not among
  the sources. The tables and columns are those the statements of server.js name and
  the spec lists: \<open>registered_users(id, username, email, password_hash)\<close>,
  \<open>login_history(id, user_id, success, created_at)\<close> and
  \<open>prompts(id, user_id, category, idea, generated_prompt, created_at)\<close>. Ids are
  server-assigned counters, \<open>created_at\<close> is the clock at the insert, and \<open>=\<close> on a text
  column is equality of strings.
\<close>

record user_row =
  u_id :: nat
  u_username :: string
  u_email :: string
  u_password_hash :: string

record login_row =
  l_user_id :: nat
  l_success :: bool
  l_created_at :: nat

record prompt_row =
  p_id :: nat
  p_user_id :: nat
  p_category :: string
  p_idea :: string
  p_generated_prompt :: string
  p_created_at :: nat

record db =
  registered_users :: "user_row list"
  next_user_id :: nat
  login_history :: "login_row list"
  prompts :: "prompt_row list"
  next_prompt_id :: nat

text \<open>The result of an INSERT or DELETE (\<open>ResultSetHeader\<close> of mysql2).\<close>

record result_header =
  insertId :: nat
  affectedRows :: nat

datatype sql =
    SelectIdByEmailOrUsername string string
  | InsertUser string string string
  | SelectUserByEmail string
  | InsertLoginHistory nat bool
  | InsertPrompt nat string string string
  | SelectPromptsByUser nat
  | DeletePrompt nat nat

text \<open>\<open>SELECT id FROM registered_users WHERE email = ? OR username = ?\<close>\<close>

definition select_id_by_email_or_username :: "string \<Rightarrow> string \<Rightarrow> nat \<Rightarrow> db \<Rightarrow> nat list \<times> db" where
  "select_id_by_email_or_username em un t d =
     (map u_id (filter (\<lambda>u. u_email u = em \<or> u_username u = un) (registered_users d)), d)"

text \<open>\<open>INSERT INTO registered_users (username, email, password_hash) VALUES (?, ?, ?)\<close>\<close>

definition insert_user :: "string \<Rightarrow> string \<Rightarrow> string \<Rightarrow> nat \<Rightarrow> db \<Rightarrow> result_header \<times> db" where
  "insert_user un em ph t d =
     (\<lparr>insertId = next_user_id d, affectedRows = 1\<rparr>,
      d\<lparr>registered_users := registered_users d @
           [\<lparr>u_id = next_user_id d, u_username = un, u_email = em, u_password_hash = ph\<rparr>],
        next_user_id := Suc (next_user_id d)\<rparr>)"

text \<open>\<open>SELECT * FROM registered_users WHERE email = ?\<close>\<close>

definition select_user_by_email :: "string \<Rightarrow> nat \<Rightarrow> db \<Rightarrow> user_row list \<times> db" where
  "select_user_by_email em t d = (filter (\<lambda>u. u_email u = em) (registered_users d), d)"

text \<open>\<open>INSERT INTO login_history (user_id, success) VALUES (?, ?)\<close>\<close>

definition insert_login_history :: "nat \<Rightarrow> bool \<Rightarrow> nat \<Rightarrow> db \<Rightarrow> result_header \<times> db" where
  "insert_login_history uid ok t d =
     (\<lparr>insertId = Suc (length (login_history d)), affectedRows = 1\<rparr>,
      d\<lparr>login_history := login_history d @
           [\<lparr>l_user_id = uid, l_success = ok, l_created_at = t\<rparr>]\<rparr>)"

text \<open>\<open>INSERT INTO prompts (user_id, category, idea, generated_prompt) VALUES (?, ?, ?, ?)\<close>\<close>

definition insert_prompt :: "nat \<Rightarrow> string \<Rightarrow> string \<Rightarrow> string \<Rightarrow> nat \<Rightarrow> db \<Rightarrow> result_header \<times> db" where
  "insert_prompt uid cat idea gp t d =
     (\<lparr>insertId = next_prompt_id d, affectedRows = 1\<rparr>,
      d\<lparr>prompts := prompts d @
           [\<lparr>p_id = next_prompt_id d, p_user_id = uid, p_category = cat, p_idea = idea,
             p_generated_prompt = gp, p_created_at = t\<rparr>],
        next_prompt_id := Suc (next_prompt_id d)\<rparr>)"

text \<open>
  \<open>SELECT * FROM prompts WHERE user_id = ? ORDER BY created_at DESC\<close>. MySQL leaves the
  order of rows with equal \<open>created_at\<close> open; the model puts the later insert first.
\<close>

definition select_prompts_by_user :: "nat \<Rightarrow> nat \<Rightarrow> db \<Rightarrow> prompt_row list \<times> db" where
  "select_prompts_by_user uid t d =
     (rev (sort_key p_created_at (filter (\<lambda>p. p_user_id p = uid) (prompts d))), d)"

text \<open>\<open>DELETE FROM prompts WHERE id = ? AND user_id = ?\<close>\<close>

definition delete_prompt :: "nat \<Rightarrow> nat \<Rightarrow> nat \<Rightarrow> db \<Rightarrow> result_header \<times> db" where
  "delete_prompt pid uid t d =
     (\<lparr>insertId = 0,
       affectedRows = length (filter (\<lambda>p. p_id p = pid \<and> p_user_id p = uid) (prompts d))\<rparr>,
      d\<lparr>prompts := filter (\<lambda>p. \<not> (p_id p = pid \<and> p_user_id p = uid)) (prompts d)\<rparr>)"

text \<open>
  \<open>await db.query(...)\<close>, the \<open>k\<close>-th of the request: it throws when MySQL rejects the
  statement and leaves the tables as they were, and runs the statement otherwise.
\<close>

definition db_query :: "world \<Rightarrow> nat \<Rightarrow> (nat \<Rightarrow> db \<Rightarrow> 'a \<times> db) \<Rightarrow> db \<Rightarrow> (js_error + 'a) \<times> db" where
  "db_query w k stmt d =
     (case db_fault w k of
        Some m \<Rightarrow> (Inl (Error m), d)
      | None \<Rightarrow> (case stmt (now w) d of (r, d') \<Rightarrow> (Inr r, d')))"

section \<open>Requests, responses and what a handler does to the outside\<close>

record req_body =
  username :: "string option"
  email :: "string option"
  password :: "string option"
  idea :: "string option"
  category :: "string option"

text \<open>\<open>req.headers["authorization"]\<close>, \<open>req.body\<close> and \<open>req.params.id\<close> (the id the path
  segment denotes).\<close>

record request =
  authorization :: "string option"
  body :: req_body
  params_id :: nat

record response =
  status :: nat
  json_body :: json

text \<open>The calls that leave the process, in the order they are issued.\<close>

datatype effect =
    Query sql
  | Fetch string json

type_synonym outcome = "response \<times> db \<times> effect list"

definition error_body :: "string \<Rightarrow> json" where
  "error_body m = JObj [(''error'', JStr m)]"

definition user_json :: "nat \<Rightarrow> string \<Rightarrow> string \<Rightarrow> json" where
  "user_json i un em = JObj [(''id'', JNum (of_nat i)), (''username'', JStr un), (''email'', JStr em)]"

section \<open>The middleware and the handlers of server.js\<close>

text \<open>
  \<open>authenticateToken\<close> either answers the request itself or calls \<open>next()\<close> with
  \<open>req.user\<close> set to the verified payload.
\<close>

datatype auth_result =
    Respond response
  | Next claims

definition bearer_token :: "string option \<Rightarrow> string option" where
  "bearer_token authHeader =
     (case authHeader of
        None \<Rightarrow> None
      | Some h \<Rightarrow> if h = [] then Some [] else at_index (split_on CHR '' '' h) 1)"

definition authenticateToken :: "config \<Rightarrow> world \<Rightarrow> request \<Rightarrow> auth_result" where
  "authenticateToken cfg w req =
     (case bearer_token (authorization req) of
        None \<Rightarrow> Respond \<lparr>status = 401, json_body = error_body ''Access token required''\<rparr>
      | Some token \<Rightarrow>
          if token = []
          then Respond \<lparr>status = 401, json_body = error_body ''Access token required''\<rparr>
          else (case jwt_verify (hmac w) token (JWT_SECRET cfg) (now w) of
                  Inl err \<Rightarrow> Respond \<lparr>status = 403, json_body = error_body ''Invalid or expired token''\<rparr>
                | Inr user \<Rightarrow> Next user))"

text \<open>A route \<open>app.METHOD(path, authenticateToken, handler)\<close>.\<close>

definition protected ::
  "config \<Rightarrow> world \<Rightarrow> (claims \<Rightarrow> request \<Rightarrow> db \<Rightarrow> outcome) \<Rightarrow> request \<Rightarrow> db \<Rightarrow> outcome" where
  "protected cfg w handler req d =
     (case authenticateToken cfg w req of
        Respond r \<Rightarrow> (r, d, [])
      | Next user \<Rightarrow> handler user req d)"

text \<open>\<open>POST /api/register\<close>\<close>

definition register :: "config \<Rightarrow> world \<Rightarrow> request \<Rightarrow> db \<Rightarrow> outcome" where
  "register cfg w req d =
     (case (username (body req), email (body req), password (body req)) of
        (Some un, Some em, Some pw) \<Rightarrow>
          if un = [] \<or> em = [] \<or> pw = []
          then (\<lparr>status = 400, json_body = error_body ''All fields are required''\<rparr>, d, [])
          else
            (case db_query w 0 (select_id_by_email_or_username em un) d of
               (Inl err, d1) \<Rightarrow>
                 (\<lparr>status = 500, json_body = error_body ''Server error during registration''\<rparr>,
                  d1, [Query (SelectIdByEmailOrUsername em un)])
             | (Inr existingUsers, d1) \<Rightarrow>
                 if length existingUsers > 0
                 then (\<lparr>status = 400, json_body = error_body ''Email or username already exists''\<rparr>,
                       d1, [Query (SelectIdByEmailOrUsername em un)])
                 else
                   (case db_query w 1 (insert_user un em (bcrypt_hash w pw SALT_ROUNDS)) d1 of
                      (Inl err, d2) \<Rightarrow>
                        (\<lparr>status = 500, json_body = error_body ''Server error during registration''\<rparr>,
                         d2, [Query (SelectIdByEmailOrUsername em un),
                              Query (InsertUser un em (bcrypt_hash w pw SALT_ROUNDS))])
                    | (Inr result, d2) \<Rightarrow>
                        (case jwt_sign (hmac w) (insertId result) un (JWT_SECRET cfg) 86400 (now w) of
                           Inl err \<Rightarrow>
                             (\<lparr>status = 500,
                               json_body = error_body ''Server error during registration''\<rparr>,
                              d2, [Query (SelectIdByEmailOrUsername em un),
                                   Query (InsertUser un em (bcrypt_hash w pw SALT_ROUNDS))])
                         | Inr token \<Rightarrow>
                             (\<lparr>status = 201,
                               json_body = JObj [(''message'', JStr ''User registered successfully''),
                                                 (''token'', JStr token),
                                                 (''user'', user_json (insertId result) un em)]\<rparr>,
                              d2, [Query (SelectIdByEmailOrUsername em un),
                                   Query (InsertUser un em (bcrypt_hash w pw SALT_ROUNDS))]))))
      | _ \<Rightarrow> (\<lparr>status = 400, json_body = error_body ''All fields are required''\<rparr>, d, []))"

text \<open>
  \<open>POST /api/login\<close>. The insert into \<open>login_history\<close> is not awaited: it is issued
  before the response is chosen, and its rejection is logged and dropped.
\<close>

definition login :: "config \<Rightarrow> world \<Rightarrow> request \<Rightarrow> db \<Rightarrow> outcome" where
  "login cfg w req d =
     (case (email (body req), password (body req)) of
        (Some em, Some pw) \<Rightarrow>
          if em = [] \<or> pw = []
          then (\<lparr>status = 400, json_body = error_body ''Email and password are required''\<rparr>, d, [])
          else
            (case db_query w 0 (select_user_by_email em) d of
               (Inl err, d1) \<Rightarrow>
                 (\<lparr>status = 500, json_body = error_body ''Server error during login''\<rparr>,
                  d1, [Query (SelectUserByEmail em)])
             | (Inr results, d1) \<Rightarrow>
                 (case results of
                    [] \<Rightarrow> (\<lparr>status = 401, json_body = error_body ''Invalid credentials''\<rparr>,
                           d1, [Query (SelectUserByEmail em)])
                  | user # _ \<Rightarrow>
                      (let validPassword = bcrypt_compare w pw (u_password_hash user);
                           d2 = snd (db_query w 1 (insert_login_history (u_id user) validPassword) d1);
                           tr = [Query (SelectUserByEmail em),
                                 Query (InsertLoginHistory (u_id user) validPassword)]
                       in if \<not> validPassword
                          then (\<lparr>status = 401, json_body = error_body ''Invalid credentials''\<rparr>, d2, tr)
                          else (case jwt_sign (hmac w) (u_id user) (u_username user)
                                       (JWT_SECRET cfg) 86400 (now w) of
                                  Inl err \<Rightarrow>
                                    (\<lparr>status = 500,
                                      json_body = error_body ''Server error during login''\<rparr>, d2, tr)
                                | Inr token \<Rightarrow>
                                    (\<lparr>status = 200,
                                      json_body = JObj [(''message'', JStr ''Login successful''),
                                                        (''token'', JStr token),
                                                        (''user'', user_json (u_id user) (u_username user)
                                                                     (u_email user))]\<rparr>,
                                     d2, tr)))))
      | _ \<Rightarrow> (\<lparr>status = 400, json_body = error_body ''Email and password are required''\<rparr>, d, []))"

text \<open>\<open>generateAIPrompt(idea, category)\<close>: the instruction, the request, the one call.\<close>

definition metaPrompt :: "string \<Rightarrow> string \<Rightarrow> string" where
  "metaPrompt idea_arg category_arg =
     ''\<newline>You are an expert prompt engineer. Your task is to generate a clear, detailed, and actionable AI prompt based on the user's input.\<newline>\<newline>Category: \"''
     @ category_arg @ ''\"\<newline>User's Idea: \"'' @ idea_arg
     @ ''\"\<newline>\<newline>Create a comprehensive prompt that an AI assistant can use to provide the best possible response. The prompt should be specific and well-structured.\<newline>\<newline>Generated Prompt:''"

definition requestBody :: "string \<Rightarrow> string \<Rightarrow> json" where
  "requestBody idea_arg category_arg =
     JObj [(''contents'',
              JArr [JObj [(''parts'', JArr [JObj [(''text'', JStr (metaPrompt idea_arg category_arg))]])]]),
           (''generationConfig'',
              JObj [(''temperature'', JNum (7 / 10)),
                    (''topK'', JNum 40),
                    (''topP'', JNum (95 / 100)),
                    (''maxOutputTokens'', JNum 1024)])]"

definition gemini_url :: "config \<Rightarrow> string" where
  "gemini_url cfg = GEMINI_API_URL @ ''?key='' @ GEMINI_API_KEY cfg"

text \<open>\<open>data?.candidates?.[0]?.content?.parts?.[0]?.text?.trim()\<close>\<close>

definition first_text :: "json \<Rightarrow> js_error + string option" where
  "first_text data =
     opt_trim (get_prop ''text'' (elem0 (get_prop ''parts'' (get_prop ''content''
       (elem0 (get_prop ''candidates'' (Some data)))))))"

definition generateAIPrompt :: "config \<Rightarrow> world \<Rightarrow> string \<Rightarrow> string \<Rightarrow> (js_error + string) \<times> effect list" where
  "generateAIPrompt cfg w idea_arg category_arg =
     (let call = Fetch (gemini_url cfg) (requestBody idea_arg category_arg)
      in case fetch w (gemini_url cfg) (requestBody idea_arg category_arg) of
           FetchError m \<Rightarrow> (Inl (Error m), [call])
         | HttpResponse st txt parsed \<Rightarrow>
             if \<not> (200 \<le> st \<and> st \<le> 299)
             then (Inl (Error (''Gemini API request failed: '' @ dec st)), [call])
             else (case parsed of
                     Inl err \<Rightarrow> (Inl err, [call])
                   | Inr data \<Rightarrow>
                       (case first_text data of
                          Inl err \<Rightarrow> (Inl err, [call])
                        | Inr None \<Rightarrow>
                            (Inl (Error ''No valid response generated from Gemini API''), [call])
                        | Inr (Some generatedText) \<Rightarrow>
                            if generatedText = []
                            then (Inl (Error ''No valid response generated from Gemini API''), [call])
                            else (Inr generatedText, [call]))))"

text \<open>\<open>POST /api/generate-prompt\<close>, behind \<open>authenticateToken\<close>.\<close>

definition generate_failed :: "js_error \<Rightarrow> response" where
  "generate_failed err =
     \<lparr>status = 500,
      json_body = JObj [(''error'', JStr ''Failed to generate prompt''),
                        (''details'', JStr (message err))]\<rparr>"

definition generate_prompt_handler :: "config \<Rightarrow> world \<Rightarrow> claims \<Rightarrow> request \<Rightarrow> db \<Rightarrow> outcome" where
  "generate_prompt_handler cfg w user req d =
     (case idea (body req) of
        None \<Rightarrow> (\<lparr>status = 400, json_body = error_body ''Idea is required and cannot be empty''\<rparr>, d, [])
      | Some i \<Rightarrow>
          if i = [] \<or> length (trim i) = 0
          then (\<lparr>status = 400, json_body = error_body ''Idea is required and cannot be empty''\<rparr>, d, [])
          else
            (case generateAIPrompt cfg w (trim i) (or_else (category (body req)) ''General'') of
               (Inl err, tr) \<Rightarrow> (generate_failed err, d, tr)
             | (Inr generatedPrompt, tr) \<Rightarrow>
                 (case db_query w 0
                         (insert_prompt (userId user) (or_else (category (body req)) ''General'')
                            (trim i) generatedPrompt) d of
                    (Inl err, d1) \<Rightarrow>
                      (generate_failed err, d1,
                       tr @ [Query (InsertPrompt (userId user)
                               (or_else (category (body req)) ''General'') (trim i) generatedPrompt)])
                  | (Inr result, d1) \<Rightarrow>
                      (\<lparr>status = 200,
                        json_body = JObj [(''success'', JBool True),
                                          (''id'', JNum (of_nat (insertId result))),
                                          (''prompt'', JStr generatedPrompt)]\<rparr>,
                       d1,
                       tr @ [Query (InsertPrompt (userId user)
                               (or_else (category (body req)) ''General'') (trim i) generatedPrompt)]))))"

definition post_generate_prompt :: "config \<Rightarrow> world \<Rightarrow> request \<Rightarrow> db \<Rightarrow> outcome" where
  "post_generate_prompt cfg w = protected cfg w (generate_prompt_handler cfg w)"

text \<open>\<open>GET /api/prompts\<close>: the rows as they come back (timestamps printed as seconds).\<close>

definition prompt_json :: "prompt_row \<Rightarrow> json" where
  "prompt_json p =
     JObj [(''id'', JNum (of_nat (p_id p))),
           (''user_id'', JNum (of_nat (p_user_id p))),
           (''category'', JStr (p_category p)),
           (''idea'', JStr (p_idea p)),
           (''generated_prompt'', JStr (p_generated_prompt p)),
           (''created_at'', JNum (of_nat (p_created_at p)))]"

definition prompts_handler :: "world \<Rightarrow> claims \<Rightarrow> request \<Rightarrow> db \<Rightarrow> outcome" where
  "prompts_handler w user req d =
     (case db_query w 0 (select_prompts_by_user (userId user)) d of
        (Inl err, d1) \<Rightarrow>
          (\<lparr>status = 500, json_body = error_body ''Failed to fetch prompts''\<rparr>,
           d1, [Query (SelectPromptsByUser (userId user))])
      | (Inr results, d1) \<Rightarrow>
          (\<lparr>status = 200, json_body = JArr (map prompt_json results)\<rparr>,
           d1, [Query (SelectPromptsByUser (userId user))]))"

definition get_prompts :: "config \<Rightarrow> world \<Rightarrow> request \<Rightarrow> db \<Rightarrow> outcome" where
  "get_prompts cfg w = protected cfg w (prompts_handler w)"

text \<open>\<open>DELETE /api/prompts/:id\<close>\<close>

definition delete_handler :: "world \<Rightarrow> claims \<Rightarrow> request \<Rightarrow> db \<Rightarrow> outcome" where
  "delete_handler w user req d =
     (case db_query w 0 (delete_prompt (params_id req) (userId user)) d of
        (Inl err, d1) \<Rightarrow>
          (\<lparr>status = 500, json_body = error_body ''Failed to delete prompt''\<rparr>,
           d1, [Query (DeletePrompt (params_id req) (userId user))])
      | (Inr result, d1) \<Rightarrow>
          if affectedRows result = 0
          then (\<lparr>status = 404, json_body = error_body ''Prompt not found or user not authorized''\<rparr>,
                d1, [Query (DeletePrompt (params_id req) (userId user))])
          else (\<lparr>status = 200, json_body = JObj [(''message'', JStr ''Prompt deleted successfully'')]\<rparr>,
                d1, [Query (DeletePrompt (params_id req) (userId user))]))"

definition delete_prompt_route :: "config \<Rightarrow> world \<Rightarrow> request \<Rightarrow> db \<Rightarrow> outcome" where
  "delete_prompt_route cfg w = protected cfg w (delete_handler w)"

text \<open>The error-handling middleware \<open>app.use((err, req, res, next) => ...)\<close>.\<close>

definition error_middleware :: "config \<Rightarrow> js_error \<Rightarrow> response" where
  "error_middleware cfg err =
     \<lparr>status = 500,
      json_body = JObj [(''error'', JStr ''Internal server error''),
                        (''message'', JStr (if NODE_ENV cfg = Some ''development''
                                             then message err else ''Something went wrong''))]\<rparr>"

section \<open>A concrete deployment, for running the definitions\<close>

text \<open>
  A configuration, a world and tables on which the handlers are evaluated below: the
  HMAC is replaced by concatenation and bcrypt by a prefix, MySQL accepts every
  statement, and the generation endpoint answers with one candidate.
\<close>

definition scenario_cfg :: config where
  "scenario_cfg = \<lparr>JWT_SECRET = ''k'', GEMINI_API_KEY = ''key'', NODE_ENV = None\<rparr>"

definition scenario_reply :: json where
  "scenario_reply =
     JObj [(''candidates'',
        JArr [JObj [(''content'',
          JObj [(''parts'', JArr [JObj [(''text'', JStr '' Write a post. '')]])])]])]"

definition scenario_world :: world where
  "scenario_world =
     \<lparr>hmac = (\<lambda>k m. k @ m),
      bcrypt_hash = (\<lambda>p r. ''h:'' @ p),
      bcrypt_compare = (\<lambda>p h. h = ''h:'' @ p),
      now = 5,
      db_fault = (\<lambda>k. None),
      fetch = (\<lambda>u b. HttpResponse 200 [] (Inr scenario_reply))\<rparr>"

definition empty_db :: db where
  "empty_db = \<lparr>registered_users = [], next_user_id = 1, login_history = [],
               prompts = [], next_prompt_id = 1\<rparr>"

definition ann :: user_row where
  "ann = \<lparr>u_id = 1, u_username = ''ann'', u_email = ''a@x.com'', u_password_hash = ''h:pw12345''\<rparr>"

definition bob :: user_row where
  "bob = \<lparr>u_id = 2, u_username = ''bob'', u_email = ''b@x.com'', u_password_hash = ''h:hunter2''\<rparr>"

definition ann_prompt :: prompt_row where
  "ann_prompt = \<lparr>p_id = 1, p_user_id = 1, p_category = ''Writing'', p_idea = ''a travel blog'',
                  p_generated_prompt = ''Write a post.'', p_created_at = 3\<rparr>"

definition bob_prompt_old :: prompt_row where
  "bob_prompt_old = \<lparr>p_id = 2, p_user_id = 2, p_category = ''General'', p_idea = ''a logo'',
                      p_generated_prompt = ''Draw a logo.'', p_created_at = 2\<rparr>"

definition bob_prompt_new :: prompt_row where
  "bob_prompt_new = \<lparr>p_id = 3, p_user_id = 2, p_category = ''Code'', p_idea = ''a parser'',
                      p_generated_prompt = ''Write a parser.'', p_created_at = 4\<rparr>"

definition scenario_db :: db where
  "scenario_db = \<lparr>registered_users = [ann, bob], next_user_id = 3, login_history = [],
                  prompts = [bob_prompt_old, ann_prompt, bob_prompt_new], next_prompt_id = 4\<rparr>"

definition no_body :: req_body where
  "no_body = \<lparr>username = None, email = None, password = None, idea = None, category = None\<rparr>"

text \<open>The token \<open>jwt.sign({ userId: 2, username: "bob" }, "k", { expiresIn: "24h" })\<close> at
  clock 0, in the model's serialisation.\<close>

definition bob_token :: string where
  "bob_token = ''2.098111098.0.86400.'' @ encode (''k'' @ ''2.098111098.0.86400'')"

definition bob_request :: "req_body \<Rightarrow> nat \<Rightarrow> request" where
  "bob_request b i = \<lparr>authorization = Some (''Bearer '' @ bob_token), body = b, params_id = i\<rparr>"

text \<open>The same deployment in production mode, and the same world with MySQL rejecting
  every statement.\<close>

definition production_cfg :: config where
  "production_cfg = scenario_cfg\<lparr>NODE_ENV := Some ''production''\<rparr>"

definition storage_down_world :: world where
  "storage_down_world = scenario_world\<lparr>db_fault := (\<lambda>k. Some ''connect ECONNREFUSED'')\<rparr>"

section \<open>Properties\<close>

subsection \<open>Facts about the string helpers\<close>

lemma split_on_nonempty: "split_on c s \<noteq> []"
  by (induction s) (auto split: list.splits)

lemma split_on_no_sep: "c \<notin> set s \<Longrightarrow> split_on c s = [s]"
  by (induction s) auto

lemma split_on_first: "c \<notin> set a \<Longrightarrow> split_on c (a @ c # rest) = a # split_on c rest"
  by (induction a) auto

lemma digit_val_digit_char: "d < 10 \<Longrightarrow> digit_val (digit_char d) = d"
  by (simp add: digit_val_def digit_char_def)

lemma is_digit_digit_char: "d < 10 \<Longrightarrow> is_digit (digit_char d)"
  by (simp add: is_digit_def digit_char_def)

lemma dec_digits: "list_all is_digit (dec n)"
proof (induction n rule: dec.induct)
  case (1 n)
  show ?case
  proof (cases "n < 10")
    case True
    then show ?thesis by (subst dec.simps) (simp add: is_digit_digit_char)
  next
    case False
    with 1 have "list_all is_digit (dec (n div 10))" by simp
    moreover have "is_digit (digit_char (n mod 10))" by (simp add: is_digit_digit_char)
    ultimately show ?thesis using False by (subst dec.simps) simp
  qed
qed

lemma dec_nonempty: "dec n \<noteq> []"
  by (subst dec.simps) simp

lemma dec_value: "foldl (\<lambda>a c. 10 * a + digit_val c) 0 (dec n) = n"
proof (induction n rule: dec.induct)
  case (1 n)
  show ?case
  proof (cases "n < 10")
    case True
    then show ?thesis by (subst dec.simps) (simp add: digit_val_digit_char)
  next
    case False
    with 1 have "foldl (\<lambda>a c. 10 * a + digit_val c) 0 (dec (n div 10)) = n div 10" by simp
    then show ?thesis using False
      by (subst dec.simps) (simp add: digit_val_digit_char)
  qed
qed

lemma undec_dec: "undec (dec n) = Some n"
  by (simp add: undec_def dec_digits dec_nonempty dec_value)

lemma is_digit_not_dot: "is_digit c \<Longrightarrow> c \<noteq> CHR ''.''"
  by (auto simp: is_digit_def)

lemma is_digit_not_space: "is_digit c \<Longrightarrow> c \<noteq> CHR '' ''"
  by (auto simp: is_digit_def)

lemma enc3_digits: "list_all is_digit (enc3 c)"
proof -
  define n where "n = (of_char c :: nat)"
  have "n < 256" by (simp add: n_def)
  then have "n div 100 < 10" "n div 10 mod 10 < 10" "n mod 10 < 10" by simp_all
  then have "list_all is_digit
      [digit_char (n div 100), digit_char (n div 10 mod 10), digit_char (n mod 10)]"
    by (simp add: is_digit_digit_char)
  then show ?thesis by (simp add: enc3_def Let_def n_def)
qed

lemma encode_digits: "list_all is_digit (encode s)"
  by (induction s) (simp_all add: enc3_digits)

lemma three_digits: "100 * ((n::nat) div 100) + 10 * (n div 10 mod 10) + n mod 10 = n"
proof -
  have a: "n = 10 * (n div 10) + n mod 10" by simp
  have b: "n div 10 = 10 * (n div 10 div 10) + n div 10 mod 10" by simp
  have c: "n div 10 div 10 = n div 100" by (simp add: div_mult2_eq [symmetric])
  from a b c show ?thesis by linarith
qed

lemma decode_triple:
  assumes "n < 256"
  shows "decode (digit_char (n div 100) # digit_char (n div 10 mod 10) # digit_char (n mod 10) # rest)
         = map_option ((#) (char_of n)) (decode rest)"
proof -
  define a b c where "a = n div 100" and "b = n div 10 mod 10" and "c = n mod 10"
  from assms have d: "a < 10" "b < 10" "c < 10" by (simp_all add: a_def b_def c_def)
  have v: "100 * a + 10 * b + c = n" unfolding a_def b_def c_def by (rule three_digits)
  have dv: "digit_val (digit_char a) = a" "digit_val (digit_char b) = b" "digit_val (digit_char c) = c"
    using d by (simp_all add: digit_val_digit_char)
  have dg: "is_digit (digit_char a)" "is_digit (digit_char b)" "is_digit (digit_char c)"
    using d by (simp_all add: is_digit_digit_char)
  have "decode (digit_char a # digit_char b # digit_char c # rest)
         = map_option ((#) (char_of n)) (decode rest)"
    by (simp only: decode.simps dv dg v assms simp_thms if_True)
  then show ?thesis by (simp only: a_def b_def c_def)
qed

lemma decode_encode: "decode (encode s) = Some s"
proof (induction s)
  case Nil
  show ?case by simp
next
  case (Cons c cs)
  have "decode (encode (c # cs)) = map_option ((#) (char_of (of_char c :: nat))) (decode (encode cs))"
    using decode_triple [of "of_char c" "encode cs"] by (simp add: enc3_def Let_def)
  with Cons show ?case by simp
qed

subsection \<open>Facts about the token model\<close>

lemma digits_no_dot: "list_all is_digit s \<Longrightarrow> CHR ''.'' \<notin> set s"
  by (auto simp: list_all_iff dest: is_digit_not_dot)

lemma digits_no_space: "list_all is_digit s \<Longrightarrow> CHR '' '' \<notin> set s"
  by (auto simp: list_all_iff dest: is_digit_not_space)

lemma split_on_five:
  assumes "CHR ''.'' \<notin> set a" "CHR ''.'' \<notin> set b" "CHR ''.'' \<notin> set c"
    "CHR ''.'' \<notin> set d" "CHR ''.'' \<notin> set e"
  shows "split_on CHR ''.'' (a @ ''.'' @ b @ ''.'' @ c @ ''.'' @ d @ ''.'' @ e) = [a, b, c, d, e]"
proof -
  have "split_on CHR ''.'' (d @ ''.'' @ e) = [d, e]"
    using assms by (simp add: split_on_first split_on_no_sep)
  then have "split_on CHR ''.'' (c @ ''.'' @ d @ ''.'' @ e) = [c, d, e]"
    using assms split_on_first [of "CHR ''.''" c "d @ ''.'' @ e"] by simp
  then have "split_on CHR ''.'' (b @ ''.'' @ c @ ''.'' @ d @ ''.'' @ e) = [b, c, d, e]"
    using assms split_on_first [of "CHR ''.''" b "c @ ''.'' @ d @ ''.'' @ e"] by simp
  then show ?thesis
    using assms split_on_first [of "CHR ''.''" a "b @ ''.'' @ c @ ''.'' @ d @ ''.'' @ e"] by simp
qed

lemma jwt_decode_token:
  "jwt_decode (signing_input uid un i x @ ''.'' @ encode sg)
   = Some (\<lparr>userId = uid, c_username = un, iat = i, exp = x\<rparr>, signing_input uid un i x, sg)"
proof -
  have "split_on CHR ''.'' (dec uid @ ''.'' @ encode un @ ''.'' @ dec i @ ''.'' @ dec x @ ''.'' @ encode sg)
        = [dec uid, encode un, dec i, dec x, encode sg]"
    by (rule split_on_five) (simp_all add: digits_no_dot dec_digits encode_digits)
  then show ?thesis
    by (simp add: jwt_decode_def jwt_fields_def signing_input_def undec_dec decode_encode)
qed

lemma jwt_verify_sign:
  assumes "jwt_sign mac uid un secret e t = Inr tok"
  shows "jwt_verify mac tok secret t' =
         (if t + e \<le> t' then Inl (Error ''jwt expired'')
          else Inr \<lparr>userId = uid, c_username = un, iat = t, exp = t + e\<rparr>)"
proof -
  from assms have s: "secret \<noteq> []"
    and tok: "tok = signing_input uid un t (t + e) @ ''.'' @ encode (mac secret (signing_input uid un t (t + e)))"
    by (auto simp: jwt_sign_def Let_def split: if_splits)
  show ?thesis
    unfolding tok jwt_verify_def jwt_decode_token using s by simp
qed

lemma jwt_sign_ok:
  "secret \<noteq> [] \<Longrightarrow> \<exists>tok. jwt_sign mac uid un secret e t = Inr tok"
  by (simp add: jwt_sign_def Let_def)

lemma jwt_sign_digits:
  assumes "jwt_sign mac uid un secret e t = Inr tok"
  shows "tok \<noteq> [] \<and> CHR '' '' \<notin> set tok"
proof -
  from assms have tok: "tok = dec uid @ ''.'' @ encode un @ ''.'' @ dec t @ ''.'' @ dec (t + e) @ ''.'' @
      encode (mac secret (signing_input uid un t (t + e)))"
    by (auto simp: jwt_sign_def Let_def signing_input_def split: if_splits)
  show ?thesis unfolding tok
    by (simp add: digits_no_space dec_digits encode_digits dec_nonempty)
qed

lemma bearer_token_Bearer:
  assumes "CHR '' '' \<notin> set tok"
  shows "bearer_token (Some (''Bearer '' @ tok)) = Some tok"
proof -
  have "split_on CHR '' '' (''Bearer'' @ CHR '' '' # tok) = ''Bearer'' # split_on CHR '' '' tok"
    by (rule split_on_first) simp
  then show ?thesis using assms
    by (simp add: bearer_token_def at_index_def split_on_no_sep)
qed

subsection \<open>Token issuance and verification\<close>

lemmas codec_eval = dec.simps enc3_def digit_char_def char_of_eq_iff is_digit_def digit_val_def
  undec_def Let_def

lemma bob_token_literal:
  "bob_token = ''2.098111098.0.86400.107050046048057056049049049048057056046048046056054052048048''"
  by (simp add: bob_token_def codec_eval)

lemma bob_token_signed:
  "jwt_sign (hmac scenario_world) 2 ''bob'' (JWT_SECRET scenario_cfg) 86400 0 = Inr bob_token"
  by (simp add: jwt_sign_def scenario_world_def scenario_cfg_def signing_input_def bob_token_def
      codec_eval)

lemma authenticateToken_issued:
  assumes "jwt_sign (hmac w) uid un (JWT_SECRET cfg) e t = Inr tok"
    and "authorization req = Some (''Bearer '' @ tok)"
  shows "authenticateToken cfg w req =
         (if t + e \<le> now w
          then Respond \<lparr>status = 403, json_body = error_body ''Invalid or expired token''\<rparr>
          else Next \<lparr>userId = uid, c_username = un, iat = t, exp = t + e\<rparr>)"
proof -
  from jwt_sign_digits [OF assms(1)] have ne: "tok \<noteq> []" and sp: "CHR '' '' \<notin> set tok"
    by simp_all
  have b: "bearer_token (authorization req) = Some tok"
    unfolding assms(2) using sp by (rule bearer_token_Bearer)
  show ?thesis
    by (simp add: authenticateToken_def b ne jwt_verify_sign [OF assms(1)])
qed

lemma authenticateToken_rejected:
  assumes "bearer_token (authorization req) = Some tok" "tok \<noteq> []"
    and "jwt_verify (hmac w) tok (JWT_SECRET cfg) (now w) = Inl err"
  shows "authenticateToken cfg w req =
         Respond \<lparr>status = 403, json_body = error_body ''Invalid or expired token''\<rparr>"
  using assms by (simp add: authenticateToken_def)

lemma authenticateToken_missing:
  assumes "bearer_token (authorization req) = None \<or> bearer_token (authorization req) = Some []"
  shows "authenticateToken cfg w req =
         Respond \<lparr>status = 401, json_body = error_body ''Access token required''\<rparr>"
  using assms by (auto simp: authenticateToken_def)

text \<open>
  C2. A token issued for a user (id and username, signed with the server secret, 24 hours
  of validity) and presented as a bearer token at any time before its expiry passes
  \<open>authenticateToken\<close> with claims naming that user; from the expiry on the answer is
  403 "Invalid or expired token"; and every token that fails verification, for whatever
  reason, gets that same answer.
\<close>

theorem issued_token_valid_for_24h:
  assumes "JWT_SECRET cfg \<noteq> []"
  shows "\<exists>tok. jwt_sign (hmac w) uid un (JWT_SECRET cfg) 86400 t0 = Inr tok \<and>
    (\<forall>t req. authorization req = Some (''Bearer '' @ tok) \<longrightarrow>
       jwt_verify (hmac w) tok (JWT_SECRET cfg) t =
         (if t < t0 + 86400
          then Inr \<lparr>userId = uid, c_username = un, iat = t0, exp = t0 + 86400\<rparr>
          else Inl (Error ''jwt expired'')) \<and>
       authenticateToken cfg (w\<lparr>now := t\<rparr>) req =
         (if t < t0 + 86400
          then Next \<lparr>userId = uid, c_username = un, iat = t0, exp = t0 + 86400\<rparr>
          else Respond \<lparr>status = 403, json_body = error_body ''Invalid or expired token''\<rparr>)) \<and>
    (\<forall>req' tok' err. bearer_token (authorization req') = Some tok' \<and> tok' \<noteq> [] \<and>
       jwt_verify (hmac w) tok' (JWT_SECRET cfg) (now w) = Inl err \<longrightarrow>
       authenticateToken cfg w req' =
         Respond \<lparr>status = 403, json_body = error_body ''Invalid or expired token''\<rparr>)"
proof -
  from jwt_sign_ok [OF assms] obtain tok
    where tok: "jwt_sign (hmac w) uid un (JWT_SECRET cfg) 86400 t0 = Inr tok" by blast
  have v: "jwt_verify (hmac w) tok (JWT_SECRET cfg) t =
         (if t < t0 + 86400
          then Inr \<lparr>userId = uid, c_username = un, iat = t0, exp = t0 + 86400\<rparr>
          else Inl (Error ''jwt expired''))" for t
    by (simp add: jwt_verify_sign [OF tok])
  have a: "authenticateToken cfg (w\<lparr>now := t\<rparr>) req =
         (if t < t0 + 86400
          then Next \<lparr>userId = uid, c_username = un, iat = t0, exp = t0 + 86400\<rparr>
          else Respond \<lparr>status = 403, json_body = error_body ''Invalid or expired token''\<rparr>)"
    if "authorization req = Some (''Bearer '' @ tok)" for t req
  proof -
    have "jwt_sign (hmac (w\<lparr>now := t\<rparr>)) uid un (JWT_SECRET cfg) 86400 t0 = Inr tok"
      using tok by simp
    from authenticateToken_issued [OF this that] show ?thesis by simp
  qed
  from tok v a authenticateToken_rejected show ?thesis by blast
qed

theorem issued_token_valid_for_24h_witness:
  "JWT_SECRET scenario_cfg \<noteq> [] \<and>
   authenticateToken scenario_cfg (scenario_world\<lparr>now := 86399\<rparr>)
     \<lparr>authorization = Some (''Bearer '' @ bob_token), body = no_body, params_id = 1\<rparr>
     = Next \<lparr>userId = 2, c_username = ''bob'', iat = 0, exp = 86400\<rparr> \<and>
   authenticateToken scenario_cfg (scenario_world\<lparr>now := 86400\<rparr>)
     \<lparr>authorization = Some (''Bearer '' @ bob_token), body = no_body, params_id = 1\<rparr>
     = Respond \<lparr>status = 403, json_body = error_body ''Invalid or expired token''\<rparr>"
proof -
  have s: "JWT_SECRET scenario_cfg \<noteq> []" by (simp add: scenario_cfg_def)
  from issued_token_valid_for_24h [OF s, of scenario_world 2 "''bob''" 0] bob_token_signed
  have "\<forall>t req. authorization req = Some (''Bearer '' @ bob_token) \<longrightarrow>
       authenticateToken scenario_cfg (scenario_world\<lparr>now := t\<rparr>) req =
         (if t < 0 + 86400
          then Next \<lparr>userId = 2, c_username = ''bob'', iat = 0, exp = 0 + 86400\<rparr>
          else Respond \<lparr>status = 403, json_body = error_body ''Invalid or expired token''\<rparr>)"
    by auto
  then have "authenticateToken scenario_cfg (scenario_world\<lparr>now := t\<rparr>)
       \<lparr>authorization = Some (''Bearer '' @ bob_token), body = no_body, params_id = 1\<rparr> =
         (if t < 0 + 86400
          then Next \<lparr>userId = 2, c_username = ''bob'', iat = 0, exp = 0 + 86400\<rparr>
          else Respond \<lparr>status = 403, json_body = error_body ''Invalid or expired token''\<rparr>)" for t
    by simp
  from this [of 86399] this [of 86400] s show ?thesis by simp
qed

subsection \<open>Authentication gate\<close>

lemma bob_authenticated:
  "authenticateToken scenario_cfg scenario_world (bob_request b i)
   = Next \<lparr>userId = 2, c_username = ''bob'', iat = 0, exp = 86400\<rparr>"
proof -
  have "authorization (bob_request b i) = Some (''Bearer '' @ bob_token)"
    by (simp add: bob_request_def)
  from authenticateToken_issued [OF bob_token_signed this] show ?thesis
    by (simp add: scenario_world_def)
qed

lemma split_on_head: "\<exists>ys. split_on c s = takeWhile (\<lambda>x. x \<noteq> c) s # ys"
  by (induction s) auto

lemma split_on_second:
  "at_index (split_on c s) (Suc 0) =
     (if c \<in> set s then Some (takeWhile (\<lambda>x. x \<noteq> c) (tl (dropWhile (\<lambda>x. x \<noteq> c) s))) else None)"
proof (induction s)
  case Nil
  show ?case by (simp add: at_index_def)
next
  case (Cons x xs)
  obtain y ys where s: "split_on c xs = y # ys" and y: "y = takeWhile (\<lambda>x. x \<noteq> c) xs"
    using split_on_head [of c xs] by blast
  show ?case
  proof (cases "x = c")
    case True
    then show ?thesis by (simp add: at_index_def s y)
  next
    case False
    have "at_index (split_on c (x # xs)) (Suc 0) = at_index (split_on c xs) (Suc 0)"
      using False by (simp add: at_index_def s)
    with Cons False show ?thesis by simp
  qed
qed

lemma bearer_token_falsy_iff:
  "(bearer_token hdr = None \<or> bearer_token hdr = Some []) \<longleftrightarrow>
   (hdr = None \<or> (\<exists>h. hdr = Some h \<and>
      (CHR '' '' \<notin> set h \<or>
       takeWhile (\<lambda>x. x \<noteq> CHR '' '') (tl (dropWhile (\<lambda>x. x \<noteq> CHR '' '') h)) = [])))"
  by (cases hdr) (auto simp: bearer_token_def split_on_second)

text \<open>
  C10. On each protected route (generate-prompt, list prompts, delete prompt), and for
  any handler mounted behind \<open>authenticateToken\<close>: when the Authorization header is
  absent, or has no space, or has nothing between its first space and the next one, the
  answer is 401; when it carries a token that fails verification, the answer is 403. In
  both cases the tables are untouched and no query and no upstream call is issued,
  whatever the handler is.
\<close>

theorem protected_routes_reject_unauthenticated:
  "((authorization req = None \<or> (\<exists>h. authorization req = Some h \<and>
        (CHR '' '' \<notin> set h \<or>
         takeWhile (\<lambda>x. x \<noteq> CHR '' '') (tl (dropWhile (\<lambda>x. x \<noteq> CHR '' '') h)) = []))) \<longrightarrow>
      (\<forall>route \<in> {protected cfg w handler, post_generate_prompt cfg w, get_prompts cfg w,
                     delete_prompt_route cfg w}.
         route req d = (\<lparr>status = 401, json_body = error_body ''Access token required''\<rparr>, d, []))) \<and>
   (\<forall>tok err. bearer_token (authorization req) = Some tok \<and> tok \<noteq> [] \<and>
        jwt_verify (hmac w) tok (JWT_SECRET cfg) (now w) = Inl err \<longrightarrow>
      (\<forall>route \<in> {protected cfg w handler, post_generate_prompt cfg w, get_prompts cfg w,
                     delete_prompt_route cfg w}.
         route req d = (\<lparr>status = 403, json_body = error_body ''Invalid or expired token''\<rparr>, d, [])))"
proof (intro conjI impI allI)
  assume "authorization req = None \<or> (\<exists>h. authorization req = Some h \<and>
        (CHR '' '' \<notin> set h \<or>
         takeWhile (\<lambda>x. x \<noteq> CHR '' '') (tl (dropWhile (\<lambda>x. x \<noteq> CHR '' '') h)) = []))"
  then have "bearer_token (authorization req) = None \<or> bearer_token (authorization req) = Some []"
    by (simp only: bearer_token_falsy_iff)
  from authenticateToken_missing [OF this]
  have "protected cfg w h req d
        = (\<lparr>status = 401, json_body = error_body ''Access token required''\<rparr>, d, [])" for h
    by (simp add: protected_def)
  then show "\<forall>route \<in> {protected cfg w handler, post_generate_prompt cfg w, get_prompts cfg w,
                     delete_prompt_route cfg w}.
         route req d = (\<lparr>status = 401, json_body = error_body ''Access token required''\<rparr>, d, [])"
    by (simp add: post_generate_prompt_def get_prompts_def delete_prompt_route_def)
next
  fix tok err
  assume "bearer_token (authorization req) = Some tok \<and> tok \<noteq> [] \<and>
        jwt_verify (hmac w) tok (JWT_SECRET cfg) (now w) = Inl err"
  then have "authenticateToken cfg w req =
         Respond \<lparr>status = 403, json_body = error_body ''Invalid or expired token''\<rparr>"
    using authenticateToken_rejected by blast
  then have "protected cfg w h req d
        = (\<lparr>status = 403, json_body = error_body ''Invalid or expired token''\<rparr>, d, [])" for h
    by (simp add: protected_def)
  then show "\<forall>route \<in> {protected cfg w handler, post_generate_prompt cfg w, get_prompts cfg w,
                     delete_prompt_route cfg w}.
         route req d = (\<lparr>status = 403, json_body = error_body ''Invalid or expired token''\<rparr>, d, [])"
    by (simp add: post_generate_prompt_def get_prompts_def delete_prompt_route_def)
qed

theorem protected_routes_reject_unauthenticated_witness:
  "delete_prompt_route scenario_cfg scenario_world
     \<lparr>authorization = Some ''Bearer '', body = no_body, params_id = 1\<rparr> scenario_db
   = (\<lparr>status = 401, json_body = error_body ''Access token required''\<rparr>, scenario_db, []) \<and>
   get_prompts scenario_cfg scenario_world
     \<lparr>authorization = Some ''Bearer abc'', body = no_body, params_id = 1\<rparr> scenario_db
   = (\<lparr>status = 403, json_body = error_body ''Invalid or expired token''\<rparr>, scenario_db, [])"
proof -
  let ?r1 = "\<lparr>authorization = Some ''Bearer '', body = no_body, params_id = 1\<rparr>"
  let ?r2 = "\<lparr>authorization = Some ''Bearer abc'', body = no_body, params_id = 1\<rparr>"
  have h1: "authorization ?r1 = None \<or> (\<exists>h. authorization ?r1 = Some h \<and>
        (CHR '' '' \<notin> set h \<or>
         takeWhile (\<lambda>x. x \<noteq> CHR '' '') (tl (dropWhile (\<lambda>x. x \<noteq> CHR '' '') h)) = []))"
    by simp
  have h2: "bearer_token (authorization ?r2) = Some ''abc'' \<and> ''abc'' \<noteq> [] \<and>
        jwt_verify (hmac scenario_world) ''abc'' (JWT_SECRET scenario_cfg) (now scenario_world)
          = Inl (Error ''jwt malformed'')"
    by (simp add: bearer_token_def at_index_def jwt_verify_def jwt_decode_def)
  from protected_routes_reject_unauthenticated
         [of ?r1 scenario_cfg scenario_world "delete_handler scenario_world" scenario_db] h1
  have a: "delete_prompt_route scenario_cfg scenario_world ?r1 scenario_db
   = (\<lparr>status = 401, json_body = error_body ''Access token required''\<rparr>, scenario_db, [])"
    by blast
  from protected_routes_reject_unauthenticated
         [of ?r2 scenario_cfg scenario_world "delete_handler scenario_world" scenario_db] h2
  have b: "get_prompts scenario_cfg scenario_world ?r2 scenario_db
   = (\<lparr>status = 403, json_body = error_body ''Invalid or expired token''\<rparr>, scenario_db, [])"
    by blast
  from a b show ?thesis by simp
qed

subsection \<open>Generating a prompt\<close>

lemma trim_empty_iff: "trim s = [] \<longleftrightarrow> list_all is_ws s"
proof
  assume "trim s = []"
  then have a: "list_all is_ws (dropWhile is_ws s)"
    by (simp add: trim_def list_all_iff)
  show "list_all is_ws s"
  proof (cases "dropWhile is_ws s")
    case Nil
    then show ?thesis by (simp add: list_all_iff)
  next
    case (Cons x xs)
    then have "\<not> is_ws x" using hd_dropWhile [of is_ws s] by simp
    with a Cons show ?thesis by simp
  qed
next
  assume "list_all is_ws s"
  then have d: "dropWhile is_ws s = []" by (simp add: list_all_iff)
  show "trim s = []" unfolding trim_def d by simp
qed

text \<open>
  C5. For an authenticated user, a generate-prompt request whose idea is absent, empty
  or made of white space only is answered 400; the tables are as before and nothing
  was sent to the generation endpoint or to MySQL.
\<close>

theorem blank_idea_rejected_before_upstream:
  assumes "authenticateToken cfg w req = Next user"
    and "idea (body req) = None \<or> (\<exists>i. idea (body req) = Some i \<and> list_all is_ws i)"
  shows "post_generate_prompt cfg w req d =
         (\<lparr>status = 400, json_body = error_body ''Idea is required and cannot be empty''\<rparr>, d, [])"
proof -
  have "generate_prompt_handler cfg w user req d =
         (\<lparr>status = 400, json_body = error_body ''Idea is required and cannot be empty''\<rparr>, d, [])"
    using assms(2) by (auto simp: generate_prompt_handler_def trim_empty_iff)
  with assms(1) show ?thesis
    by (simp add: post_generate_prompt_def protected_def)
qed

theorem blank_idea_rejected_before_upstream_witness:
  "post_generate_prompt scenario_cfg scenario_world
     (bob_request (no_body\<lparr>idea := Some ''  ''\<rparr>) 0) scenario_db =
   (\<lparr>status = 400, json_body = error_body ''Idea is required and cannot be empty''\<rparr>,
    scenario_db, [])"
proof -
  let ?req = "bob_request (no_body\<lparr>idea := Some ''  ''\<rparr>) 0"
  have "idea (body ?req) = None \<or> (\<exists>i. idea (body ?req) = Some i \<and> list_all is_ws i)"
    by (simp add: bob_request_def is_ws_def)
  from blank_idea_rejected_before_upstream [OF bob_authenticated this] show ?thesis .
qed

subsection \<open>Registration\<close>

text \<open>
  C4. A registration whose three fields are present, and whose email or username is
  already in \<open>registered_users\<close>, is answered 400 "Email or username already exists"
  whatever the password is; the only statement issued is the SELECT of the duplicate
  check, and the tables are as before.
\<close>

theorem duplicate_identity_rejected:
  assumes "username (body req) = Some un" "email (body req) = Some em"
    and "password (body req) = Some pw"
    and "un \<noteq> []" "em \<noteq> []" "pw \<noteq> []"
    and "db_fault w 0 = None"
    and "\<exists>u \<in> set (registered_users d). u_email u = em \<or> u_username u = un"
  shows "register cfg w req d =
         (\<lparr>status = 400, json_body = error_body ''Email or username already exists''\<rparr>,
          d, [Query (SelectIdByEmailOrUsername em un)])"
proof -
  from assms(8) have "filter (\<lambda>u. u_email u = em \<or> u_username u = un) (registered_users d) \<noteq> []"
    by (simp add: filter_empty_conv)
  then have "db_query w 0 (select_id_by_email_or_username em un) d = (Inr ids, d') \<Longrightarrow>
             0 < length ids \<and> d' = d" for ids d'
    using assms(7) by (auto simp: db_query_def select_id_by_email_or_username_def)
  then show ?thesis
    using assms(1-7)
    by (auto simp: register_def db_query_def select_id_by_email_or_username_def)
qed

theorem duplicate_identity_rejected_witness:
  "register scenario_cfg scenario_world
     \<lparr>authorization = None,
      body = no_body\<lparr>username := Some ''carol'', email := Some ''a@x.com'', password := Some ''x''\<rparr>,
      params_id = 0\<rparr> scenario_db =
   (\<lparr>status = 400, json_body = error_body ''Email or username already exists''\<rparr>,
    scenario_db, [Query (SelectIdByEmailOrUsername ''a@x.com'' ''carol'')])"
proof -
  let ?req = "\<lparr>authorization = None,
      body = no_body\<lparr>username := Some ''carol'', email := Some ''a@x.com'', password := Some ''x''\<rparr>,
      params_id = 0\<rparr>"
  have dup: "\<exists>u \<in> set (registered_users scenario_db). u_email u = ''a@x.com'' \<or> u_username u = ''carol''"
    by (simp add: scenario_db_def ann_def)
  have ok: "db_fault scenario_world 0 = None" by (simp add: scenario_world_def)
  show ?thesis
    by (rule duplicate_identity_rejected [where pw = "''x''", OF _ _ _ _ _ _ ok dup])
       (simp_all add: no_body_def)
qed

text \<open>
  C1. A registration whose three fields are present, with an email and a username that
  no row of \<open>registered_users\<close> has, is answered 201 (MySQL accepting both statements
  and the server secret being set); the row is inserted under the next id, and the
  token in the answer verifies, at that moment and under the server secret, to claims
  carrying that id and the username.
\<close>

theorem fresh_registration_succeeds:
  assumes "username (body req) = Some un" "email (body req) = Some em"
    and "password (body req) = Some pw"
    and "un \<noteq> []" "em \<noteq> []" "pw \<noteq> []"
    and "db_fault w 0 = None" "db_fault w 1 = None"
    and "JWT_SECRET cfg \<noteq> []"
    and "\<forall>u \<in> set (registered_users d). u_email u \<noteq> em \<and> u_username u \<noteq> un"
  shows "\<exists>tok. register cfg w req d =
           (\<lparr>status = 201,
             json_body = JObj [(''message'', JStr ''User registered successfully''),
                               (''token'', JStr tok),
                               (''user'', user_json (next_user_id d) un em)]\<rparr>,
            d\<lparr>registered_users := registered_users d @
                 [\<lparr>u_id = next_user_id d, u_username = un, u_email = em,
                   u_password_hash = bcrypt_hash w pw SALT_ROUNDS\<rparr>],
              next_user_id := Suc (next_user_id d)\<rparr>,
            [Query (SelectIdByEmailOrUsername em un),
             Query (InsertUser un em (bcrypt_hash w pw SALT_ROUNDS))]) \<and>
         jwt_verify (hmac w) tok (JWT_SECRET cfg) (now w) =
           Inr \<lparr>userId = next_user_id d, c_username = un, iat = now w, exp = now w + 86400\<rparr>"
proof -
  from jwt_sign_ok [OF assms(9)] obtain tok
    where tok: "jwt_sign (hmac w) (next_user_id d) un (JWT_SECRET cfg) 86400 (now w) = Inr tok"
    by blast
  have none: "filter (\<lambda>u. u_email u = em \<or> u_username u = un) (registered_users d) = []"
    using assms(10) by (auto simp: filter_empty_conv)
  have "register cfg w req d =
           (\<lparr>status = 201,
             json_body = JObj [(''message'', JStr ''User registered successfully''),
                               (''token'', JStr tok),
                               (''user'', user_json (next_user_id d) un em)]\<rparr>,
            d\<lparr>registered_users := registered_users d @
                 [\<lparr>u_id = next_user_id d, u_username = un, u_email = em,
                   u_password_hash = bcrypt_hash w pw SALT_ROUNDS\<rparr>],
              next_user_id := Suc (next_user_id d)\<rparr>,
            [Query (SelectIdByEmailOrUsername em un),
             Query (InsertUser un em (bcrypt_hash w pw SALT_ROUNDS))])"
    using assms(1-8) none tok
    by (simp add: register_def db_query_def select_id_by_email_or_username_def insert_user_def)
  moreover have "jwt_verify (hmac w) tok (JWT_SECRET cfg) (now w) =
           Inr \<lparr>userId = next_user_id d, c_username = un, iat = now w, exp = now w + 86400\<rparr>"
    by (simp add: jwt_verify_sign [OF tok])
  ultimately show ?thesis by blast
qed

theorem fresh_registration_succeeds_witness:
  "\<exists>tok. register scenario_cfg scenario_world
       \<lparr>authorization = None,
        body = no_body\<lparr>username := Some ''carol'', email := Some ''c@x.com'',
                       password := Some ''pw12345''\<rparr>,
        params_id = 0\<rparr> scenario_db =
     (\<lparr>status = 201,
       json_body = JObj [(''message'', JStr ''User registered successfully''),
                         (''token'', JStr tok),
                         (''user'', user_json 3 ''carol'' ''c@x.com'')]\<rparr>,
      scenario_db\<lparr>registered_users :=
          [ann, bob, \<lparr>u_id = 3, u_username = ''carol'', u_email = ''c@x.com'',
                      u_password_hash = ''h:pw12345''\<rparr>],
        next_user_id := 4\<rparr>,
      [Query (SelectIdByEmailOrUsername ''c@x.com'' ''carol''),
       Query (InsertUser ''carol'' ''c@x.com'' ''h:pw12345'')]) \<and>
     jwt_verify (hmac scenario_world) tok (JWT_SECRET scenario_cfg) 5 =
       Inr \<lparr>userId = 3, c_username = ''carol'', iat = 5, exp = 86405\<rparr>"
proof -
  let ?req = "\<lparr>authorization = None,
        body = no_body\<lparr>username := Some ''carol'', email := Some ''c@x.com'',
                       password := Some ''pw12345''\<rparr>,
        params_id = 0\<rparr>"
  have fresh: "\<forall>u \<in> set (registered_users scenario_db).
                 u_email u \<noteq> ''c@x.com'' \<and> u_username u \<noteq> ''carol''"
    by (simp add: scenario_db_def ann_def bob_def)
  have ok: "db_fault scenario_world 0 = None" "db_fault scenario_world 1 = None"
    by (simp_all add: scenario_world_def)
  have s: "JWT_SECRET scenario_cfg \<noteq> []" by (simp add: scenario_cfg_def)
  have "username (body ?req) = Some ''carol''" "email (body ?req) = Some ''c@x.com''"
    "password (body ?req) = Some ''pw12345''"
    by (simp_all add: no_body_def)
  from fresh_registration_succeeds [OF this _ _ _ ok s fresh]
  show ?thesis
    by (simp add: scenario_world_def scenario_db_def)
qed

subsection \<open>Listing and deleting prompts\<close>

lemma protected_Next:
  "authenticateToken cfg w req = Next user \<Longrightarrow> protected cfg w handler req d = handler user req d"
  by (simp add: protected_def)

lemma filter_unowned:
  assumes "\<forall>p \<in> set ps. p_id p = i \<longrightarrow> p_user_id p \<noteq> u"
  shows "filter (\<lambda>p. p_id p = i \<and> p_user_id p = u) ps = []"
    and "filter (\<lambda>p. \<not> (p_id p = i \<and> p_user_id p = u)) ps = ps"
    and "filter (\<lambda>p. p_id p = i \<longrightarrow> p_user_id p \<noteq> u) ps = ps"
  using assms by (induction ps) auto

text \<open>
  C3. For a user who passed \<open>authenticateToken\<close>, deleting a prompt id that no prompt
  has, or that only prompts of other users have, is answered 404 with one and the same
  body in both cases (MySQL accepting the statement); the tables are as before, so
  every prompt is still in the listing of its owner.
\<close>

theorem foreign_or_absent_prompt_not_deleted:
  assumes "authenticateToken cfg w req = Next user"
    and "db_fault w 0 = None"
    and "\<forall>p \<in> set (prompts d). p_id p = params_id req \<longrightarrow> p_user_id p \<noteq> userId user"
  shows "delete_prompt_route cfg w req d =
           (\<lparr>status = 404, json_body = error_body ''Prompt not found or user not authorized''\<rparr>,
            d, [Query (DeletePrompt (params_id req) (userId user))]) \<and>
         (\<forall>p \<in> set (prompts d). \<forall>t.
            p \<in> set (fst (select_prompts_by_user (p_user_id p) t
                             (fst (snd (delete_prompt_route cfg w req d))))))"
proof -
  have d: "d\<lparr>prompts := prompts d\<rparr> = d" by simp
  have r: "delete_prompt_route cfg w req d =
           (\<lparr>status = 404, json_body = error_body ''Prompt not found or user not authorized''\<rparr>,
            d, [Query (DeletePrompt (params_id req) (userId user))])"
    using assms(2)
    by (simp add: delete_prompt_route_def protected_Next [OF assms(1)] delete_handler_def
        db_query_def delete_prompt_def filter_unowned [OF assms(3)] d)
  have "p \<in> set (fst (select_prompts_by_user (p_user_id p) t d))" if "p \<in> set (prompts d)" for p t
    using that by (simp add: select_prompts_by_user_def)
  with r show ?thesis by simp
qed

theorem foreign_or_absent_prompt_not_deleted_witness:
  "delete_prompt_route scenario_cfg scenario_world (bob_request no_body 1) scenario_db =
     (\<lparr>status = 404, json_body = error_body ''Prompt not found or user not authorized''\<rparr>,
      scenario_db, [Query (DeletePrompt 1 2)]) \<and>
   ann_prompt \<in> set (fst (select_prompts_by_user 1 9
       (fst (snd (delete_prompt_route scenario_cfg scenario_world (bob_request no_body 1)
                    scenario_db)))))"
proof -
  have ok: "db_fault scenario_world 0 = None" by (simp add: scenario_world_def)
  have other: "\<forall>p \<in> set (prompts scenario_db).
      p_id p = params_id (bob_request no_body 1) \<longrightarrow>
      p_user_id p \<noteq> userId \<lparr>userId = 2, c_username = ''bob'', iat = 0, exp = 86400\<rparr>"
    by (simp add: scenario_db_def bob_request_def ann_prompt_def bob_prompt_old_def
        bob_prompt_new_def)
  have mem: "ann_prompt \<in> set (prompts scenario_db)" by (simp add: scenario_db_def)
  from foreign_or_absent_prompt_not_deleted [OF bob_authenticated ok other] mem
  have "delete_prompt_route scenario_cfg scenario_world (bob_request no_body 1) scenario_db =
     (\<lparr>status = 404, json_body = error_body ''Prompt not found or user not authorized''\<rparr>,
      scenario_db, [Query (DeletePrompt (params_id (bob_request no_body 1)) 2)])"
    and "ann_prompt \<in> set (fst (select_prompts_by_user (p_user_id ann_prompt) 9
       (fst (snd (delete_prompt_route scenario_cfg scenario_world (bob_request no_body 1)
                    scenario_db)))))"
    by auto
  then show ?thesis by (simp add: bob_request_def ann_prompt_def)
qed

text \<open>
  C7. For a user who passed \<open>authenticateToken\<close>, the listing (MySQL accepting the
  statement) is answered 200 with rows that are, as a multiset, exactly the prompts whose
  \<open>user_id\<close> is that user's id, in an order in which \<open>created_at\<close> never increases.
\<close>

theorem listing_is_own_prompts_newest_first:
  assumes "authenticateToken cfg w req = Next user"
    and "db_fault w 0 = None"
  shows "\<exists>rows. get_prompts cfg w req d =
           (\<lparr>status = 200, json_body = JArr (map prompt_json rows)\<rparr>, d,
            [Query (SelectPromptsByUser (userId user))]) \<and>
         mset rows = mset (filter (\<lambda>p. p_user_id p = userId user) (prompts d)) \<and>
         sorted_wrt (\<lambda>a b. p_created_at a \<ge> p_created_at b) rows"
proof -
  define rows where
    "rows = rev (sort_key p_created_at (filter (\<lambda>p. p_user_id p = userId user) (prompts d)))"
  have "get_prompts cfg w req d =
           (\<lparr>status = 200, json_body = JArr (map prompt_json rows)\<rparr>, d,
            [Query (SelectPromptsByUser (userId user))])"
    using assms(2)
    by (simp add: get_prompts_def protected_Next [OF assms(1)] prompts_handler_def db_query_def
        select_prompts_by_user_def rows_def)
  moreover have "mset rows = mset (filter (\<lambda>p. p_user_id p = userId user) (prompts d))"
    unfolding rows_def by (simp only: mset_rev mset_sort)
  moreover have "sorted_wrt (\<lambda>a b. p_created_at a \<ge> p_created_at b) rows"
  proof -
    have "sorted (map p_created_at
            (sort_key p_created_at (filter (\<lambda>p. p_user_id p = userId user) (prompts d))))"
      by (rule sorted_sort_key)
    then show ?thesis
      unfolding rows_def by (simp only: sorted_wrt_rev sorted_map)
  qed
  ultimately show ?thesis by blast
qed

theorem listing_is_own_prompts_newest_first_witness:
  "get_prompts scenario_cfg scenario_world (bob_request no_body 0) scenario_db =
     (\<lparr>status = 200, json_body = JArr [prompt_json bob_prompt_new, prompt_json bob_prompt_old]\<rparr>,
      scenario_db, [Query (SelectPromptsByUser 2)]) \<and>
   (\<exists>rows. get_prompts scenario_cfg scenario_world (bob_request no_body 0) scenario_db =
           (\<lparr>status = 200, json_body = JArr (map prompt_json rows)\<rparr>, scenario_db,
            [Query (SelectPromptsByUser 2)]) \<and>
         mset rows = mset (filter (\<lambda>p. p_user_id p = 2) (prompts scenario_db)) \<and>
         sorted_wrt (\<lambda>a b. p_created_at a \<ge> p_created_at b) rows)"
proof -
  have ok: "db_fault scenario_world 0 = None" by (simp add: scenario_world_def)
  have h: "prompts_handler scenario_world \<lparr>userId = 2, c_username = ''bob'', iat = 0, exp = 86400\<rparr>
             (bob_request no_body 0) scenario_db =
     (\<lparr>status = 200, json_body = JArr [prompt_json bob_prompt_new, prompt_json bob_prompt_old]\<rparr>,
      scenario_db, [Query (SelectPromptsByUser 2)])"
    by (simp add: prompts_handler_def db_query_def select_prompts_by_user_def scenario_world_def
        scenario_db_def ann_prompt_def bob_prompt_old_def bob_prompt_new_def)
  have "get_prompts scenario_cfg scenario_world (bob_request no_body 0) scenario_db =
     (\<lparr>status = 200, json_body = JArr [prompt_json bob_prompt_new, prompt_json bob_prompt_old]\<rparr>,
      scenario_db, [Query (SelectPromptsByUser 2)])"
    unfolding get_prompts_def protected_Next [OF bob_authenticated] by (rule h)
  with listing_is_own_prompts_newest_first [OF bob_authenticated ok, of no_body 0 scenario_db]
  show ?thesis by simp
qed

subsection \<open>Login and its audit record\<close>

lemma login_user_found:
  assumes "email (body req) = Some em" "password (body req) = Some pw" "em \<noteq> []" "pw \<noteq> []"
    and "db_fault w 0 = None"
    and "filter (\<lambda>u. u_email u = em) (registered_users d) = user # rest"
  shows "login cfg w req d =
     (let validPassword = bcrypt_compare w pw (u_password_hash user);
          d2 = snd (db_query w 1 (insert_login_history (u_id user) validPassword) d);
          tr = [Query (SelectUserByEmail em), Query (InsertLoginHistory (u_id user) validPassword)]
      in if \<not> validPassword
         then (\<lparr>status = 401, json_body = error_body ''Invalid credentials''\<rparr>, d2, tr)
         else (case jwt_sign (hmac w) (u_id user) (u_username user) (JWT_SECRET cfg) 86400 (now w) of
                 Inl err \<Rightarrow>
                   (\<lparr>status = 500, json_body = error_body ''Server error during login''\<rparr>, d2, tr)
               | Inr token \<Rightarrow>
                   (\<lparr>status = 200,
                     json_body = JObj [(''message'', JStr ''Login successful''),
                                       (''token'', JStr token),
                                       (''user'', user_json (u_id user) (u_username user)
                                                    (u_email user))]\<rparr>,
                    d2, tr)))"
  using assms by (simp add: login_def db_query_def select_user_by_email_def)

lemma login_user_missing:
  assumes "email (body req) = Some em" "password (body req) = Some pw" "em \<noteq> []" "pw \<noteq> []"
    and "db_fault w 0 = None"
    and "filter (\<lambda>u. u_email u = em) (registered_users d) = []"
  shows "login cfg w req d =
     (\<lparr>status = 401, json_body = error_body ''Invalid credentials''\<rparr>, d,
      [Query (SelectUserByEmail em)])"
  using assms by (simp add: login_def db_query_def select_user_by_email_def)

text \<open>
  C8, as the claim states it, fails: a login with email and password present whose email
  no user has is answered 401 and leaves \<open>login_history\<close> as it was; the only statement
  issued is the SELECT.
\<close>

theorem login_unknown_email_not_recorded:
  "login scenario_cfg scenario_world
     \<lparr>authorization = None,
      body = no_body\<lparr>email := Some ''nobody@x.com'', password := Some ''pw12345''\<rparr>,
      params_id = 0\<rparr> scenario_db =
   (\<lparr>status = 401, json_body = error_body ''Invalid credentials''\<rparr>, scenario_db,
    [Query (SelectUserByEmail ''nobody@x.com'')]) \<and>
   login_history (fst (snd (login scenario_cfg scenario_world
     \<lparr>authorization = None,
      body = no_body\<lparr>email := Some ''nobody@x.com'', password := Some ''pw12345''\<rparr>,
      params_id = 0\<rparr> scenario_db))) = []"
  by (simp add: login_def db_query_def select_user_by_email_def scenario_world_def scenario_db_def
      no_body_def ann_def bob_def)

text \<open>
  C8, amended. For a login with email and password present whose SELECT MySQL accepts:
  when a user has that email, the insert into \<open>login_history\<close> with that user's id and
  the boolean result of the password check is issued, whether the check succeeds (the
  answer is then 200, or 500 without a server secret) or fails (401), and when MySQL
  accepts the insert the row is appended; when no user has that email, the answer is 401
  and nothing is inserted.
\<close>

theorem login_attempt_recorded_when_user_found:
  assumes "email (body req) = Some em" "password (body req) = Some pw" "em \<noteq> []" "pw \<noteq> []"
    and "db_fault w 0 = None"
  shows "(\<forall>user rest. filter (\<lambda>u. u_email u = em) (registered_users d) = user # rest \<longrightarrow>
            snd (snd (login cfg w req d)) =
              [Query (SelectUserByEmail em),
               Query (InsertLoginHistory (u_id user) (bcrypt_compare w pw (u_password_hash user)))] \<and>
            status (fst (login cfg w req d)) =
              (if bcrypt_compare w pw (u_password_hash user)
               then (if JWT_SECRET cfg = [] then 500 else 200) else 401) \<and>
            (db_fault w 1 = None \<longrightarrow>
               fst (snd (login cfg w req d)) =
                 d\<lparr>login_history := login_history d @
                      [\<lparr>l_user_id = u_id user,
                        l_success = bcrypt_compare w pw (u_password_hash user),
                        l_created_at = now w\<rparr>]\<rparr>)) \<and>
         (filter (\<lambda>u. u_email u = em) (registered_users d) = [] \<longrightarrow>
            login cfg w req d =
              (\<lparr>status = 401, json_body = error_body ''Invalid credentials''\<rparr>, d,
               [Query (SelectUserByEmail em)]))"
proof (intro conjI allI impI)
  fix user rest
  assume f: "filter (\<lambda>u. u_email u = em) (registered_users d) = user # rest"
  note l = login_user_found [OF assms f, of cfg]
  show "snd (snd (login cfg w req d)) =
              [Query (SelectUserByEmail em),
               Query (InsertLoginHistory (u_id user) (bcrypt_compare w pw (u_password_hash user)))]"
    by (simp add: l Let_def split: sum.split)
  show "status (fst (login cfg w req d)) =
              (if bcrypt_compare w pw (u_password_hash user)
               then (if JWT_SECRET cfg = [] then 500 else 200) else 401)"
    by (simp add: l Let_def jwt_sign_def)
  show "fst (snd (login cfg w req d)) =
                 d\<lparr>login_history := login_history d @
                      [\<lparr>l_user_id = u_id user,
                        l_success = bcrypt_compare w pw (u_password_hash user),
                        l_created_at = now w\<rparr>]\<rparr>"
    if "db_fault w 1 = None"
    using that by (simp add: l Let_def db_query_def insert_login_history_def split: sum.split)
next
  assume "filter (\<lambda>u. u_email u = em) (registered_users d) = []"
  from login_user_missing [OF assms this]
  show "login cfg w req d =
              (\<lparr>status = 401, json_body = error_body ''Invalid credentials''\<rparr>, d,
               [Query (SelectUserByEmail em)])" .
qed

theorem login_attempt_recorded_when_user_found_witness:
  "snd (snd (login scenario_cfg scenario_world
       \<lparr>authorization = None,
        body = no_body\<lparr>email := Some ''a@x.com'', password := Some ''wrong''\<rparr>,
        params_id = 0\<rparr> scenario_db)) =
     [Query (SelectUserByEmail ''a@x.com''), Query (InsertLoginHistory 1 False)] \<and>
   status (fst (login scenario_cfg scenario_world
       \<lparr>authorization = None,
        body = no_body\<lparr>email := Some ''a@x.com'', password := Some ''wrong''\<rparr>,
        params_id = 0\<rparr> scenario_db)) = 401 \<and>
   fst (snd (login scenario_cfg scenario_world
       \<lparr>authorization = None,
        body = no_body\<lparr>email := Some ''a@x.com'', password := Some ''wrong''\<rparr>,
        params_id = 0\<rparr> scenario_db)) =
     scenario_db\<lparr>login_history := [\<lparr>l_user_id = 1, l_success = False, l_created_at = 5\<rparr>]\<rparr>"
proof -
  let ?req = "\<lparr>authorization = None,
        body = no_body\<lparr>email := Some ''a@x.com'', password := Some ''wrong''\<rparr>,
        params_id = 0\<rparr>"
  have b: "email (body ?req) = Some ''a@x.com''" "password (body ?req) = Some ''wrong''"
    "''a@x.com'' \<noteq> []" "''wrong'' \<noteq> []"
    by (simp_all add: no_body_def)
  have ok: "db_fault scenario_world 0 = None" "db_fault scenario_world 1 = None"
    by (simp_all add: scenario_world_def)
  have f: "filter (\<lambda>u. u_email u = ''a@x.com'') (registered_users scenario_db) = ann # []"
    by (simp add: scenario_db_def ann_def bob_def)
  have v: "bcrypt_compare scenario_world ''wrong'' (u_password_hash ann) = False"
    "u_id ann = 1" "now scenario_world = 5" "login_history scenario_db = []"
    by (simp_all add: scenario_world_def ann_def scenario_db_def)
  from login_attempt_recorded_when_user_found [OF b ok(1), of scenario_db scenario_cfg] f ok(2)
  have "snd (snd (login scenario_cfg scenario_world ?req scenario_db)) =
              [Query (SelectUserByEmail ''a@x.com''),
               Query (InsertLoginHistory (u_id ann)
                  (bcrypt_compare scenario_world ''wrong'' (u_password_hash ann)))]"
    and "status (fst (login scenario_cfg scenario_world ?req scenario_db)) =
              (if bcrypt_compare scenario_world ''wrong'' (u_password_hash ann)
               then (if JWT_SECRET scenario_cfg = [] then 500 else 200) else 401)"
    and "fst (snd (login scenario_cfg scenario_world ?req scenario_db)) =
                 scenario_db\<lparr>login_history := login_history scenario_db @
                      [\<lparr>l_user_id = u_id ann,
                        l_success = bcrypt_compare scenario_world ''wrong'' (u_password_hash ann),
                        l_created_at = now scenario_world\<rparr>]\<rparr>"
    by blast+
  then show ?thesis by (simp add: v)
qed

subsection \<open>The generation mediator\<close>

lemma generateAIPrompt_call:
  "snd (generateAIPrompt cfg w i c) = [Fetch (gemini_url cfg) (requestBody i c)]"
  by (simp add: generateAIPrompt_def Let_def split: fetch_result.split sum.split option.split)

lemma first_text_found:
  assumes "map_of kvs ''candidates'' = Some (JArr (JObj ckvs # cs))"
    and "map_of ckvs ''content'' = Some (JObj cont)"
    and "map_of cont ''parts'' = Some (JArr (JObj pkvs # ps))"
    and "map_of pkvs ''text'' = Some (JStr t)"
  shows "first_text (JObj kvs) = Inr (Some (trim t))"
  using assms by (simp add: first_text_def get_prop_def elem0_def at_index_def opt_trim_def)

lemma generateAIPrompt_text:
  assumes "fetch w (gemini_url cfg) (requestBody i c) = HttpResponse st tx (Inr data)"
    and "200 \<le> st" "st \<le> 299"
    and "first_text data = Inr (Some g)" "g \<noteq> []"
  shows "fst (generateAIPrompt cfg w i c) = Inr g"
  using assms by (simp add: generateAIPrompt_def Let_def)

lemma generate_prompt_handler_call:
  assumes "idea (body req) = Some ii" "trim ii \<noteq> []"
  shows "\<exists>rest. snd (snd (generate_prompt_handler cfg w user req d)) =
           Fetch (gemini_url cfg) (requestBody (trim ii) (or_else (category (body req)) ''General'')) # rest"
proof -
  from assms have ne: "ii \<noteq> []" by (auto simp: trim_def)
  obtain r where r: "generateAIPrompt cfg w (trim ii) (or_else (category (body req)) ''General'')
      = (r, [Fetch (gemini_url cfg) (requestBody (trim ii) (or_else (category (body req)) ''General''))])"
    using generateAIPrompt_call [of cfg w "trim ii" "or_else (category (body req)) ''General''"]
    by (cases "generateAIPrompt cfg w (trim ii) (or_else (category (body req)) ''General'')") simp
  show ?thesis
    using assms ne
    by (cases r) (simp_all add: generate_prompt_handler_def r split: prod.split sum.split)
qed

text \<open>
  C6. \<open>generateAIPrompt\<close> makes exactly one call to the generation endpoint; its body
  holds one instruction, in which the category and the idea stand as they were passed,
  between fixed text, and the generation parameters temperature 0.7, topK 40, topP 0.95
  and maxOutputTokens 1024. When the endpoint answers with a success status and the
  first part of the first candidate has a text that is not blank, the result is that
  text trimmed. The handler passes the trimmed idea, and for the category the request's
  own when it is a non-empty string and "General" otherwise.
\<close>

theorem mediator_request_and_extraction:
  "snd (generateAIPrompt cfg w i c) =
     [Fetch (gemini_url cfg)
        (JObj [(''contents'',
                  JArr [JObj [(''parts'', JArr [JObj [(''text'', JStr (
     ''\<newline>You are an expert prompt engineer. Your task is to generate a clear, detailed, and actionable AI prompt based on the user's input.\<newline>\<newline>Category: \"''
     @ c @ ''\"\<newline>User's Idea: \"'' @ i
     @ ''\"\<newline>\<newline>Create a comprehensive prompt that an AI assistant can use to provide the best possible response. The prompt should be specific and well-structured.\<newline>\<newline>Generated Prompt:''))]])]]),
               (''generationConfig'',
                  JObj [(''temperature'', JNum (7 / 10)), (''topK'', JNum 40),
                        (''topP'', JNum (95 / 100)), (''maxOutputTokens'', JNum 1024)])])] \<and>
   (\<forall>st tx kvs ckvs cs cont pkvs ps t.
      fetch w (gemini_url cfg) (requestBody i c) = HttpResponse st tx (Inr (JObj kvs)) \<and>
      200 \<le> st \<and> st \<le> 299 \<and>
      map_of kvs ''candidates'' = Some (JArr (JObj ckvs # cs)) \<and>
      map_of ckvs ''content'' = Some (JObj cont) \<and>
      map_of cont ''parts'' = Some (JArr (JObj pkvs # ps)) \<and>
      map_of pkvs ''text'' = Some (JStr t) \<and> trim t \<noteq> [] \<longrightarrow>
      fst (generateAIPrompt cfg w i c) = Inr (trim t)) \<and>
   (\<forall>user req d ii. idea (body req) = Some ii \<and> trim ii \<noteq> [] \<longrightarrow>
      (\<exists>rest. snd (snd (generate_prompt_handler cfg w user req d)) =
         Fetch (gemini_url cfg)
           (requestBody (trim ii)
              (case category (body req) of
                 None \<Rightarrow> ''General''
               | Some cat \<Rightarrow> if cat = [] then ''General'' else cat)) # rest))"
proof (intro conjI allI impI)
  show "snd (generateAIPrompt cfg w i c) =
     [Fetch (gemini_url cfg)
        (JObj [(''contents'',
                  JArr [JObj [(''parts'', JArr [JObj [(''text'', JStr (
     ''\<newline>You are an expert prompt engineer. Your task is to generate a clear, detailed, and actionable AI prompt based on the user's input.\<newline>\<newline>Category: \"''
     @ c @ ''\"\<newline>User's Idea: \"'' @ i
     @ ''\"\<newline>\<newline>Create a comprehensive prompt that an AI assistant can use to provide the best possible response. The prompt should be specific and well-structured.\<newline>\<newline>Generated Prompt:''))]])]]),
               (''generationConfig'',
                  JObj [(''temperature'', JNum (7 / 10)), (''topK'', JNum 40),
                        (''topP'', JNum (95 / 100)), (''maxOutputTokens'', JNum 1024)])])]"
    unfolding generateAIPrompt_call requestBody_def metaPrompt_def ..
next
  fix st tx kvs ckvs cs cont pkvs ps t
  assume a: "fetch w (gemini_url cfg) (requestBody i c) = HttpResponse st tx (Inr (JObj kvs)) \<and>
      200 \<le> st \<and> st \<le> 299 \<and>
      map_of kvs ''candidates'' = Some (JArr (JObj ckvs # cs)) \<and>
      map_of ckvs ''content'' = Some (JObj cont) \<and>
      map_of cont ''parts'' = Some (JArr (JObj pkvs # ps)) \<and>
      map_of pkvs ''text'' = Some (JStr t) \<and> trim t \<noteq> []"
  then have "first_text (JObj kvs) = Inr (Some (trim t))"
    by (intro first_text_found) blast+
  with a show "fst (generateAIPrompt cfg w i c) = Inr (trim t)"
    by (intro generateAIPrompt_text [where data = "JObj kvs"]) blast+
next
  fix user :: claims and req :: request and d :: db and ii :: string
  assume "idea (body req) = Some ii \<and> trim ii \<noteq> []"
  then have "\<exists>rest. snd (snd (generate_prompt_handler cfg w user req d)) =
           Fetch (gemini_url cfg) (requestBody (trim ii) (or_else (category (body req)) ''General'')) # rest"
    by (intro generate_prompt_handler_call) blast+
  then show "\<exists>rest. snd (snd (generate_prompt_handler cfg w user req d)) =
         Fetch (gemini_url cfg)
           (requestBody (trim ii)
              (case category (body req) of
                 None \<Rightarrow> ''General''
               | Some cat \<Rightarrow> if cat = [] then ''General'' else cat)) # rest"
    by (simp add: or_else_def)
qed

theorem mediator_request_and_extraction_witness:
  "generateAIPrompt scenario_cfg scenario_world ''a travel blog'' ''Writing'' =
     (Inr ''Write a post.'',
      [Fetch (gemini_url scenario_cfg) (requestBody ''a travel blog'' ''Writing'')]) \<and>
   (\<exists>rest. snd (snd (generate_prompt_handler scenario_cfg scenario_world
                \<lparr>userId = 2, c_username = ''bob'', iat = 0, exp = 86400\<rparr>
                (bob_request (no_body\<lparr>idea := Some '' a logo ''\<rparr>) 0) scenario_db)) =
      Fetch (gemini_url scenario_cfg) (requestBody ''a logo'' ''General'') # rest)"
proof -
  let ?user = "\<lparr>userId = 2, c_username = ''bob'', iat = 0, exp = 86400\<rparr>"
  let ?req = "bob_request (no_body\<lparr>idea := Some '' a logo ''\<rparr>) 0"
  note m = mediator_request_and_extraction
    [of scenario_cfg scenario_world "''a travel blog''" "''Writing''"]
  have t: "trim '' Write a post. '' = ''Write a post.''" "trim '' a logo '' = ''a logo''"
    by (simp_all add: trim_def is_ws_def)
  have "fetch scenario_world (gemini_url scenario_cfg) (requestBody ''a travel blog'' ''Writing'')
        = HttpResponse 200 [] (Inr (JObj [(''candidates'',
            JArr [JObj [(''content'',
              JObj [(''parts'', JArr [JObj [(''text'', JStr '' Write a post. '')]])])]])])) \<and>
      (200::nat) \<le> 200 \<and> (200::nat) \<le> 299 \<and>
      map_of [(''candidates'',
            JArr [JObj [(''content'',
              JObj [(''parts'', JArr [JObj [(''text'', JStr '' Write a post. '')]])])]])] ''candidates''
        = Some (JArr (JObj [(''content'',
              JObj [(''parts'', JArr [JObj [(''text'', JStr '' Write a post. '')]])])] # [])) \<and>
      map_of [(''content'',
              JObj [(''parts'', JArr [JObj [(''text'', JStr '' Write a post. '')]])])] ''content''
        = Some (JObj [(''parts'', JArr [JObj [(''text'', JStr '' Write a post. '')]])]) \<and>
      map_of [(''parts'', JArr [JObj [(''text'', JStr '' Write a post. '')]])] ''parts''
        = Some (JArr (JObj [(''text'', JStr '' Write a post. '')] # [])) \<and>
      map_of [(''text'', JStr '' Write a post. '')] ''text'' = Some (JStr '' Write a post. '') \<and>
      trim '' Write a post. '' \<noteq> []"
    by (simp add: scenario_world_def scenario_reply_def t)
  with m have f: "fst (generateAIPrompt scenario_cfg scenario_world ''a travel blog'' ''Writing'')
        = Inr (trim '' Write a post. '')"
    by blast
  from m have s: "snd (generateAIPrompt scenario_cfg scenario_world ''a travel blog'' ''Writing'')
        = [Fetch (gemini_url scenario_cfg) (requestBody ''a travel blog'' ''Writing'')]"
    by (simp add: requestBody_def metaPrompt_def)
  have i: "idea (body ?req) = Some '' a logo '' \<and> trim '' a logo '' \<noteq> []"
    by (simp add: bob_request_def t)
  with m have "\<exists>rest. snd (snd (generate_prompt_handler scenario_cfg scenario_world ?user ?req
                scenario_db)) =
         Fetch (gemini_url scenario_cfg)
           (requestBody (trim '' a logo '')
              (case category (body ?req) of
                 None \<Rightarrow> ''General''
               | Some cat \<Rightarrow> if cat = [] then ''General'' else cat)) # rest"
    by blast
  then have h: "\<exists>rest. snd (snd (generate_prompt_handler scenario_cfg scenario_world ?user ?req
                scenario_db)) =
         Fetch (gemini_url scenario_cfg) (requestBody ''a logo'' ''General'') # rest"
    by (simp add: t bob_request_def no_body_def)
  from f s h show ?thesis
    by (simp add: t prod_eq_iff)
qed

subsection \<open>Storage and upstream failures\<close>

lemma register_select_rejected:
  assumes "username (body req) = Some un" "email (body req) = Some em"
    and "password (body req) = Some pw" "un \<noteq> []" "em \<noteq> []" "pw \<noteq> []"
    and "db_fault w 0 = Some m"
  shows "register cfg w req d =
     (\<lparr>status = 500, json_body = error_body ''Server error during registration''\<rparr>, d,
      [Query (SelectIdByEmailOrUsername em un)])"
  using assms by (simp add: register_def db_query_def)

lemma register_insert_rejected:
  assumes "username (body req) = Some un" "email (body req) = Some em"
    and "password (body req) = Some pw" "un \<noteq> []" "em \<noteq> []" "pw \<noteq> []"
    and "db_fault w 0 = None"
    and "\<forall>u \<in> set (registered_users d). u_email u \<noteq> em \<and> u_username u \<noteq> un"
    and "db_fault w 1 = Some m"
  shows "register cfg w req d =
     (\<lparr>status = 500, json_body = error_body ''Server error during registration''\<rparr>, d,
      [Query (SelectIdByEmailOrUsername em un),
       Query (InsertUser un em (bcrypt_hash w pw SALT_ROUNDS))])"
proof -
  have "filter (\<lambda>u. u_email u = em \<or> u_username u = un) (registered_users d) = []"
    using assms(8) by (auto simp: filter_empty_conv)
  then show ?thesis
    using assms(1-7,9)
    by (simp add: register_def db_query_def select_id_by_email_or_username_def)
qed

lemma login_select_rejected:
  assumes "email (body req) = Some em" "password (body req) = Some pw" "em \<noteq> []" "pw \<noteq> []"
    and "db_fault w 0 = Some m"
  shows "login cfg w req d =
     (\<lparr>status = 500, json_body = error_body ''Server error during login''\<rparr>, d,
      [Query (SelectUserByEmail em)])"
  using assms by (simp add: login_def db_query_def)

lemma prompts_handler_rejected:
  "db_fault w 0 = Some m \<Longrightarrow>
   prompts_handler w user req d =
     (\<lparr>status = 500, json_body = error_body ''Failed to fetch prompts''\<rparr>, d,
      [Query (SelectPromptsByUser (userId user))])"
  by (simp add: prompts_handler_def db_query_def)

lemma delete_handler_rejected:
  "db_fault w 0 = Some m \<Longrightarrow>
   delete_handler w user req d =
     (\<lparr>status = 500, json_body = error_body ''Failed to delete prompt''\<rparr>, d,
      [Query (DeletePrompt (params_id req) (userId user))])"
  by (simp add: delete_handler_def db_query_def)

lemma generate_insert_rejected:
  assumes "idea (body req) = Some i" "trim i \<noteq> []"
    and "generateAIPrompt cfg w (trim i) (or_else (category (body req)) ''General'') = (Inr gp, tr)"
    and "db_fault w 0 = Some m"
  shows "generate_prompt_handler cfg w user req d =
     (generate_failed (Error m), d,
      tr @ [Query (InsertPrompt (userId user) (or_else (category (body req)) ''General'')
                     (trim i) gp)])"
proof -
  from assms(2) have "i \<noteq> []" by (auto simp: trim_def)
  with assms show ?thesis
    by (simp add: generate_prompt_handler_def db_query_def)
qed

lemma generate_upstream_failed:
  assumes "idea (body req) = Some i" "trim i \<noteq> []"
    and "generateAIPrompt cfg w (trim i) (or_else (category (body req)) ''General'') = (Inl err, tr)"
  shows "generate_prompt_handler cfg w user req d = (generate_failed err, d, tr)"
proof -
  from assms(2) have "i \<noteq> []" by (auto simp: trim_def)
  with assms show ?thesis
    by (simp add: generate_prompt_handler_def)
qed

lemma authenticateToken_world:
  "hmac w' = hmac w \<Longrightarrow> now w' = now w \<Longrightarrow>
   authenticateToken cfg w' req = authenticateToken cfg w req"
  by (simp add: authenticateToken_def split: option.split)

lemma login_audit_not_awaited:
  "fst (login cfg (w\<lparr>db_fault := (db_fault w)(1 := x)\<rparr>) req d) = fst (login cfg w req d)"
  by (simp add: login_def db_query_def Let_def
      split: option.split list.split sum.split prod.split)

text \<open>
  C9. The claim asks that a failed storage operation be answered 500 without the storage
  error's text, only upstream failures carrying a detail string. The generate-prompt
  route does not do this: the INSERT of the prompt sits in the \<open>try\<close> block of the upstream
  call, and the one \<open>catch\<close> sends \<open>error.message\<close> as \<open>details\<close>. So for an authenticated
  user whose generation succeeded, a rejected INSERT is answered 500 with the message of
  the storage error in \<open>details\<close>, whatever \<open>NODE_ENV\<close> is; register, login, the listing
  and the deletion answer the same failure with a fixed message (the lemmas above).
\<close>

theorem generate_prompt_insert_error_in_details:
  assumes "authenticateToken cfg w req = Next user"
    and "idea (body req) = Some i" "trim i \<noteq> []"
    and "generateAIPrompt cfg w (trim i) (or_else (category (body req)) ''General'') = (Inr gp, tr)"
    and "db_fault w 0 = Some m"
  shows "post_generate_prompt cfg w req d =
     (\<lparr>status = 500,
       json_body = JObj [(''error'', JStr ''Failed to generate prompt''),
                         (''details'', JStr m)]\<rparr>,
      d,
      tr @ [Query (InsertPrompt (userId user) (or_else (category (body req)) ''General'')
                     (trim i) gp)])"
  using generate_insert_rejected [OF assms(2-5), of user d]
  by (simp add: post_generate_prompt_def protected_Next [OF assms(1)] generate_failed_def)

theorem generate_prompt_insert_error_in_details_witness:
  "NODE_ENV production_cfg = Some ''production'' \<and>
   post_generate_prompt production_cfg storage_down_world
     (bob_request (no_body\<lparr>idea := Some ''a logo''\<rparr>) 0) scenario_db =
   (\<lparr>status = 500,
     json_body = JObj [(''error'', JStr ''Failed to generate prompt''),
                       (''details'', JStr ''connect ECONNREFUSED'')]\<rparr>,
    scenario_db,
    [Fetch (gemini_url production_cfg) (requestBody ''a logo'' ''General''),
     Query (InsertPrompt 2 ''General'' ''a logo'' ''Write a post.'')])"
proof -
  let ?req = "bob_request (no_body\<lparr>idea := Some ''a logo''\<rparr>) 0"
  have s: "jwt_sign (hmac storage_down_world) 2 ''bob'' (JWT_SECRET production_cfg) 86400 0
           = Inr bob_token"
    using bob_token_signed
    by (simp add: storage_down_world_def production_cfg_def)
  have h: "authorization ?req = Some (''Bearer '' @ bob_token)"
    by (simp add: bob_request_def)
  have a: "authenticateToken production_cfg storage_down_world ?req
           = Next \<lparr>userId = 2, c_username = ''bob'', iat = 0, exp = 86400\<rparr>"
    using authenticateToken_issued [OF s h]
    by (simp add: storage_down_world_def scenario_world_def)
  have t: "trim ''a logo'' = ''a logo''" "trim '' Write a post. '' = ''Write a post.''"
    by (simp_all add: trim_def is_ws_def)
  have i: "idea (body ?req) = Some ''a logo''" "trim ''a logo'' \<noteq> []"
    by (simp_all add: bob_request_def t)
  have g: "generateAIPrompt production_cfg storage_down_world (trim ''a logo'')
             (or_else (category (body ?req)) ''General'') =
      (Inr ''Write a post.'', [Fetch (gemini_url production_cfg) (requestBody ''a logo'' ''General'')])"
    by (simp add: generateAIPrompt_def Let_def storage_down_world_def scenario_world_def
        scenario_reply_def first_text_def get_prop_def elem0_def at_index_def opt_trim_def
        or_else_def bob_request_def no_body_def t)
  have f: "db_fault storage_down_world 0 = Some ''connect ECONNREFUSED''"
    by (simp add: storage_down_world_def)
  have c: "or_else (category (body ?req)) ''General'' = ''General''"
    by (simp add: or_else_def bob_request_def no_body_def)
  from generate_prompt_insert_error_in_details [OF a i g f, of scenario_db]
  show ?thesis
    by (simp add: t c production_cfg_def)
qed

end
